theory Spec2Isabelle
  imports Main "HOL-Library.Word"
begin

section \<open>udp-proxy-2020: the relay engine of cmd/listen.go\<close>

text \<open>
  The development embeds \<^verbatim>\<open>cmd/listen.go\<close>: the configuration step
  (\<^verbatim>\<open>processListener\<close>, \<^verbatim>\<open>initalizeListeners\<close>), the rewrite step
  (\<^verbatim>\<open>sendPacket\<close>) and one iteration of the relay loop (\<^verbatim>\<open>handlePackets\<close>).
  Logging, the raw socket and process exit are effects; they are recorded in order in an
  effect trace. \<^verbatim>\<open>log.Fatalf\<close> logs at fatal level and exits the process with status 1,
  so in the trace a fatal log entry is always followed by \<open>Exit 1\<close> and nothing else.
\<close>

subsection \<open>Machine types\<close>

type_synonym byte = "8 word"

text \<open>\<^verbatim>\<open>layers.LinkType\<close> is a \<^verbatim>\<open>uint8\<close>; the three constants the code names have the
  pcap link-type numbers.\<close>

type_synonym LinkType = "8 word"

definition LinkTypeNull :: LinkType where
  "LinkTypeNull = 0"

definition LinkTypeEthernet :: LinkType where
  "LinkTypeEthernet = 1"

definition LinkTypeLoop :: LinkType where
  "LinkTypeLoop = 108"

text \<open>\<^verbatim>\<open>gopacket.LayerType\<close>: the layer types the code names, and all the others.\<close>

datatype LayerType =
    LayerTypeLoopback
  | LayerTypeEthernet
  | LayerTypeIPv4
  | LayerTypeUDP
  | LayerTypePayload
  | LayerTypeOther nat

subsection \<open>Packets, relay messages and channels\<close>

text \<open>A captured \<^verbatim>\<open>gopacket.Packet\<close>, as far as the code looks at it: its bytes
  (\<^verbatim>\<open>Data()\<close>), its network and transport layers (\<^verbatim>\<open>nil\<close> is \<open>None\<close>, otherwise the
  layer's type) and its error layer (\<^verbatim>\<open>nil\<close>, or the text of the decoding error).\<close>

record Packet =
  Data :: "byte list"
  NetworkLayer :: "LayerType option"
  TransportLayer :: "LayerType option"
  ErrorLayer :: "string option"

text \<open>The struct \<^verbatim>\<open>Send\<close> is declared outside \<^verbatim>\<open>listen.go\<close>; \<^verbatim>\<open>sendPacket\<close> reads its
  fields \<^verbatim>\<open>packet\<close>, \<^verbatim>\<open>srcif\<close> and \<^verbatim>\<open>linkType\<close>.\<close>

record Send =
  packet :: Packet
  srcif :: string
  linkType :: LinkType

text \<open>A buffered channel of \<^verbatim>\<open>Send\<close>: its capacity and the messages waiting in it.\<close>

record SendChan =
  capacity :: nat
  waiting :: "Send list"

definition SendBufferSize :: nat where
  "SendBufferSize = 100"

definition make_chan :: "nat \<Rightarrow> SendChan" where
  "make_chan n = \<lparr>capacity = n, waiting = []\<rparr>"

subsection \<open>The raw socket and the capture handle\<close>

text \<open>\<^verbatim>\<open>ipv4.Header\<close> of golang.org/x/net/ipv4: every numeric field is a Go \<^verbatim>\<open>int\<close>,
  addresses are \<^verbatim>\<open>net.IP\<close> byte slices (\<^verbatim>\<open>nil\<close> is the empty list).\<close>

record Header =
  Version :: int
  Len :: int
  TOS :: int
  TotalLen :: int
  ID :: int
  Flags :: int
  FragOff :: int
  TTL :: int
  Protocol :: int
  Checksum :: int
  Src :: "byte list"
  Dst :: "byte list"
  Options :: "byte list"

text \<open>What the operating system answers on the raw socket during one call of
  \<^verbatim>\<open>sendPacket\<close>: the error of \<^verbatim>\<open>SetControlMessage\<close> and of \<^verbatim>\<open>WriteTo\<close>
  (\<open>None\<close> is \<^verbatim>\<open>nil\<close>).\<close>

record RawConn =
  SetControlMessage_err :: "string option"
  WriteTo_err :: "Header \<Rightarrow> byte list \<Rightarrow> string option"

text \<open>An activated \<^verbatim>\<open>pcap.Handle\<close>; the relay loop only asks it for its link type.\<close>

record Handle =
  handle_LinkType :: LinkType

subsection \<open>Listen\<close>

text \<open>The struct \<^verbatim>\<open>Listen\<close>. The field \<^verbatim>\<open>filter\<close> is \<open>filter'\<close> here; \<^verbatim>\<open>ports\<close> is
  \<^verbatim>\<open>[]int32\<close>, \<^verbatim>\<open>timeout\<close> a \<^verbatim>\<open>time.Duration\<close> (\<^verbatim>\<open>int64\<close>); a \<^verbatim>\<open>nil\<close> handle or
  socket is \<open>None\<close>.\<close>

record Listen =
  iface :: string
  filter' :: string
  ports :: "32 word list"
  ipaddr :: string
  promisc :: bool
  handle :: "Handle option"
  raw :: "RawConn option"
  timeout :: "64 word"
  sendpkt :: SendChan

subsection \<open>Effects\<close>

datatype Level = Debug | Warn | Error | Fatal

text \<open>The arguments of a log call: a string (an interface name, the text of an error), a
  link type, a header.\<close>

datatype Arg =
    S string
  | LT LinkType
  | H Header

text \<open>A log entry keeps the level, the format string and the arguments of the call
  (\<^verbatim>\<open>log.Fatal(err)\<close> has no format string: its entry has the empty one). \<open>WriteTo h p\<close> is
  the hand-off of header \<open>h\<close> and payload \<open>p\<close> to the raw socket; \<open>CallSend p n t\<close> is the
  call \<^verbatim>\<open>s.Send(p, n, t)\<close> on the packet feed; \<open>Exit\<close> ends the process, \<open>Panic\<close> is a
  nil-pointer dereference.\<close>

datatype Effect =
    Log Level string "Arg list"
  | WriteTo Header "byte list"
  | CallSend Packet string LinkType
  | Exit nat
  | Panic

text \<open>The datagrams handed to the raw socket in a trace, and whether the process ended.\<close>

fun writes :: "Effect list \<Rightarrow> (Header \<times> byte list) list" where
  "writes [] = []"
| "writes (WriteTo h p # es) = (h, p) # writes es"
| "writes (_ # es) = writes es"

fun exits :: "Effect list \<Rightarrow> bool" where
  "exits [] = False"
| "exits (Exit n # es) = True"
| "exits (_ # es) = exits es"

subsection \<open>Configuration: processListener\<close>

text \<open>\<^verbatim>\<open>strings.Split(s, sep)\<close> for a separator of one character: the substrings between
  the separators, one more than there are separators.\<close>

fun Split :: "string \<Rightarrow> char \<Rightarrow> string list" where
  "Split [] c = [[]]"
| "Split (x # xs) c =
     (if x = c then [] # Split xs c
      else (case Split xs c of
              [] \<Rightarrow> [[x]]
            | p # ps \<Rightarrow> (x # p) # ps))"

text \<open>
  Modelled from the spec: the helper \<^verbatim>\<open>stringPrefixInSlice\<close>, which \<^verbatim>\<open>processListener\<close>
  calls and which is not part of \<^verbatim>\<open>listen.go\<close>. \<^verbatim>\<open>processListener\<close> takes the helper as
  its first argument \<open>inSlice\<close>, so that every result on the loop says what it needs of
  the helper. The spec describes the helper through the check it serves: "interface
  names must be pairwise distinct - duplicate configuration is a fatal configuration
  error", and "the core rejects any configuration listing the same interface name more
  than once". The slice holds the bare names of the entries read so far and the helper
  is asked for a name followed by \<open>@\<close>; so the helper of the spec says yes exactly when a
  string of the slice, followed by \<open>@\<close>, is the string asked for.
\<close>

definition stringPrefixInSlice :: "string \<Rightarrow> string list \<Rightarrow> bool" where
  "stringPrefixInSlice a list = list_ex (\<lambda>b. b @ ''@'' = a) list"

text \<open>The two fatal errors of \<^verbatim>\<open>processListener\<close>, each with the argument of its
  format string.\<close>

datatype ConfigError =
    InvalidEntry string
  | SameInterface string

text \<open>The body of \<^verbatim>\<open>processListener\<close>: the loop over \<^verbatim>\<open>lp\<close>, with the slice behind the
  pointer \<^verbatim>\<open>interfaces\<close> and the result \<^verbatim>\<open>ret\<close> as the loop's state. A \<^verbatim>\<open>log.Fatalf\<close>
  ends the process, so the first entry that fails decides the result: \<open>Inl\<close> holds the
  error and the \<^verbatim>\<open>Listen\<close> values that exist when the process exits, \<open>Inr\<close> the slice of
  names and the \<^verbatim>\<open>Listen\<close> values returned.\<close>

fun processListener_loop ::
  "(string \<Rightarrow> string list \<Rightarrow> bool) \<Rightarrow> string list \<Rightarrow> Listen list \<Rightarrow> string list \<Rightarrow>
   bool \<Rightarrow> string \<Rightarrow> 32 word list \<Rightarrow> 64 word \<Rightarrow>
   (ConfigError \<times> Listen list) + (string list \<times> Listen list)" where
  "processListener_loop inSlice interfaces ret [] promisc' bpf_filter ports' to =
     Inr (interfaces, ret)"
| "processListener_loop inSlice interfaces ret (i # lp) promisc' bpf_filter ports' to =
     (let s = Split i CHR ''@'' in
      if length s \<noteq> 2 then Inl (InvalidEntry i, ret)
      else
        let iface = s ! 0;
            ipaddr = s ! 1;
            iface_prefix = iface @ ''@''
        in
          if inSlice iface_prefix interfaces then Inl (SameInterface iface, ret)
          else
            let new = \<lparr>iface = iface, filter' = bpf_filter, ports = ports', ipaddr = ipaddr,
                       promisc = promisc', handle = None, raw = None, timeout = to,
                       sendpkt = make_chan SendBufferSize\<rparr>
            in processListener_loop inSlice (interfaces @ [iface]) (ret @ [new]) lp
                 promisc' bpf_filter ports' to)"

definition processListener ::
  "(string \<Rightarrow> string list \<Rightarrow> bool) \<Rightarrow> string list \<Rightarrow> string list \<Rightarrow>
   bool \<Rightarrow> string \<Rightarrow> 32 word list \<Rightarrow> 64 word \<Rightarrow>
   (ConfigError \<times> Listen list) + (string list \<times> Listen list)" where
  "processListener inSlice interfaces lp promisc' bpf_filter ports' to =
     processListener_loop inSlice interfaces [] lp promisc' bpf_filter ports' to"

text \<open>\<^verbatim>\<open>initalizeListeners\<close> starts from the empty slice of interface names and copies the
  result of \<^verbatim>\<open>processListener\<close> into \<^verbatim>\<open>listeners\<close>.\<close>

definition initalizeListeners ::
  "(string \<Rightarrow> string list \<Rightarrow> bool) \<Rightarrow> string list \<Rightarrow>
   bool \<Rightarrow> string \<Rightarrow> 32 word list \<Rightarrow> 64 word \<Rightarrow> (ConfigError \<times> Listen list) + Listen list" where
  "initalizeListeners inSlice ifaces promisc' bpf_filter ports' to =
     (case processListener inSlice [] ifaces promisc' bpf_filter ports' to of
        Inl e \<Rightarrow> Inl e
      | Inr (interfaces, a) \<Rightarrow> Inr (foldl (\<lambda>listeners x. listeners @ [x]) [] a))"

text \<open>The \<^verbatim>\<open>Listen\<close> that \<^verbatim>\<open>processListener\<close> builds for a well-formed entry.\<close>

definition new_Listen :: "string \<Rightarrow> bool \<Rightarrow> string \<Rightarrow> 32 word list \<Rightarrow> 64 word \<Rightarrow> Listen" where
  "new_Listen i pr bf po to =
     \<lparr>iface = Split i CHR ''@'' ! 0, filter' = bf, ports = po, ipaddr = Split i CHR ''@'' ! 1,
      promisc = pr, handle = None, raw = None, timeout = to,
      sendpkt = make_chan SendBufferSize\<rparr>"

subsection \<open>The decoded IPv4 layer\<close>

text \<open>\<^verbatim>\<open>layers.IPv4Option\<close> and \<^verbatim>\<open>layers.IPv4\<close> of gopacket, the library that decodes
  the frames. The fields of \<^verbatim>\<open>layers.IPv4\<close> carry the prefix \<open>ip4\<close> here, to keep them
  apart from those of \<^verbatim>\<open>ipv4.Header\<close>.\<close>

record IPv4Option =
  OptionType :: byte
  OptionLength :: byte
  OptionData :: "byte list"

record IPv4 =
  ip4Version :: byte
  ip4IHL :: byte
  ip4TOS :: byte
  ip4Length :: "16 word"
  ip4Id :: "16 word"
  ip4Flags :: byte
  ip4FragOffset :: "16 word"
  ip4TTL :: byte
  ip4Protocol :: byte
  ip4Checksum :: "16 word"
  ip4SrcIP :: "byte list"
  ip4DstIP :: "byte list"
  ip4Options :: "IPv4Option list"
  ip4Padding :: "byte list"

text \<open>What \<^verbatim>\<open>parser.DecodeLayers\<close> leaves behind: its error, the list of decoded layer
  types, and the variables \<^verbatim>\<open>ip4\<close> and \<^verbatim>\<open>payload\<close> the parser was built on.\<close>

record Decoded =
  dec_err :: "string option"
  dec_layers :: "LayerType list"
  dec_ip4 :: IPv4
  dec_payload :: "byte list"

text \<open>The library functions \<^verbatim>\<open>sendPacket\<close> calls and this development does not define:
  gopacket's \<^verbatim>\<open>DecodingLayerParser\<close> (given the first layer type and the frame) and
  \<^verbatim>\<open>net.ParseIP\<close>.\<close>

record Env =
  DecodeLayers :: "LayerType \<Rightarrow> byte list \<Rightarrow> Decoded"
  ParseIP :: "string \<Rightarrow> byte list"

text \<open>\<^verbatim>\<open>net.IP.To4\<close> of the Go standard library: a 4-byte address is returned as it is, a
  16-byte IPv4-mapped address gives its last four bytes, anything else \<^verbatim>\<open>nil\<close>.\<close>

definition To4 :: "byte list \<Rightarrow> byte list" where
  "To4 ip =
     (if length ip = 4 then ip
      else if length ip = 16 \<and> list_all (\<lambda>b. b = 0) (take 10 ip) \<and> ip ! 10 = 0xff \<and> ip ! 11 = 0xff
      then drop 12 ip
      else [])"

text \<open>\<^verbatim>\<open>IPv4Option.String()\<close> of gopacket is
  \<^verbatim>\<open>fmt.Sprintf("IPv4Option(%v:%v)", i.OptionType, i.OptionData)\<close>: the option type in
  decimal and the data as Go prints a byte slice (decimal numbers between brackets,
  separated by spaces).\<close>

definition digit :: "nat \<Rightarrow> char" where
  "digit n = ''0123456789'' ! n"

definition uint8_v :: "byte \<Rightarrow> string" where
  "uint8_v b =
     (let n = unat b in
      if n < 10 then [digit n]
      else if n < 100 then [digit (n div 10), digit (n mod 10)]
      else [digit (n div 100), digit (n div 10 mod 10), digit (n mod 10)])"

fun bytes_v_elems :: "byte list \<Rightarrow> string" where
  "bytes_v_elems [] = []"
| "bytes_v_elems [b] = uint8_v b"
| "bytes_v_elems (b # bs) = uint8_v b @ '' '' @ bytes_v_elems bs"

definition bytes_v :: "byte list \<Rightarrow> string" where
  "bytes_v bs = ''['' @ bytes_v_elems bs @ '']''"

definition IPv4Option_String :: "IPv4Option \<Rightarrow> string" where
  "IPv4Option_String opt =
     ''IPv4Option('' @ uint8_v (OptionType opt) @ '':'' @ bytes_v (OptionData opt) @ '')''"

text \<open>The conversion \<^verbatim>\<open>[]byte(s)\<close> of a string.\<close>

definition bytes_of_string :: "string \<Rightarrow> byte list" where
  "bytes_of_string s = map of_char s"

subsection \<open>The rewrite step: sendPacket\<close>

text \<open>The \<^verbatim>\<open>switch\<close> on the link type of the message: the first layer the parser is built
  for, or \<open>None\<close> in the \<^verbatim>\<open>default\<close> case.\<close>

definition parser_first_layer :: "LinkType \<Rightarrow> LayerType option" where
  "parser_first_layer lt =
     (if lt = LinkTypeNull then Some LayerTypeLoopback
      else if lt = LinkTypeLoop then Some LayerTypeLoopback
      else if lt = LinkTypeEthernet then Some LayerTypeEthernet
      else None)"

text \<open>The loop over \<^verbatim>\<open>decoded\<close> that sets \<^verbatim>\<open>found_udp\<close> and \<^verbatim>\<open>found_ipv4\<close>.\<close>

fun scan_decoded :: "bool \<times> bool \<Rightarrow> LayerType list \<Rightarrow> bool \<times> bool" where
  "scan_decoded (found_udp, found_ipv4) [] = (found_udp, found_ipv4)"
| "scan_decoded (found_udp, found_ipv4) (layerType # decoded) =
     (case layerType of
        LayerTypeUDP \<Rightarrow> scan_decoded (True, found_ipv4) decoded
      | LayerTypeIPv4 \<Rightarrow> scan_decoded (found_udp, True) decoded
      | _ \<Rightarrow> scan_decoded (found_udp, found_ipv4) decoded)"

text \<open>The loop over \<^verbatim>\<open>ip4.Options\<close> that builds \<^verbatim>\<open>ip_options\<close>.\<close>

fun append_options :: "byte list \<Rightarrow> IPv4Option list \<Rightarrow> byte list" where
  "append_options ip_options [] = ip_options"
| "append_options ip_options (opt # opts) =
     append_options (ip_options @ bytes_of_string (IPv4Option_String opt)) opts"

text \<open>The struct literal \<^verbatim>\<open>h := ipv4.Header{...}\<close>.\<close>

definition new_header :: "Env \<Rightarrow> Listen \<Rightarrow> IPv4 \<Rightarrow> byte list \<Rightarrow> Header" where
  "new_header env l ip4 ip_options =
     \<lparr>Version = 4,
      Len = uint (ip4IHL ip4) * 4,
      TOS = uint (ip4TOS ip4),
      TotalLen = uint (ip4Length ip4),
      ID = uint (ip4Id ip4),
      Flags = 0,
      FragOff = uint (ip4FragOffset ip4),
      TTL = uint (ip4TTL ip4),
      Protocol = 17,
      Checksum = 0,
      Src = To4 (ip4SrcIP ip4),
      Dst = To4 (ParseIP env (ipaddr l)),
      Options = ip_options\<rparr>"

text \<open>The end of \<^verbatim>\<open>sendPacket\<close>: \<^verbatim>\<open>SetControlMessage\<close>, whose error is fatal, and
  \<^verbatim>\<open>WriteTo\<close>, whose error is logged.\<close>

definition transmit :: "Listen \<Rightarrow> Header \<Rightarrow> byte list \<Rightarrow> Effect list" where
  "transmit l h payload =
     (case raw l of
        None \<Rightarrow> [Panic]
      | Some r \<Rightarrow>
          (case SetControlMessage_err r of
             Some e \<Rightarrow> [Log Fatal [] [S e], Exit 1]
           | None \<Rightarrow>
               WriteTo h payload #
               (case WriteTo_err r h payload of
                  Some e \<Rightarrow> [Log Error ''Unable to send packet on %s: %s'' [S (iface l), S e]]
                | None \<Rightarrow> [])))"

definition sendPacket :: "Env \<Rightarrow> Listen \<Rightarrow> Send \<Rightarrow> Effect list" where
  "sendPacket env l sndpkt =
     Log Debug ''processing packet from %s on %s'' [S (srcif sndpkt), S (iface l)] #
     (case parser_first_layer (linkType sndpkt) of
        None \<Rightarrow> [Log Fatal ''Unsupported source linktype: 0x%02x'' [LT (linkType sndpkt)], Exit 1]
      | Some first \<Rightarrow>
          let d = DecodeLayers env first (Data (packet sndpkt)) in
          (case dec_err d of
             Some e \<Rightarrow> [Log Warn ''Unable to decode packet from %s: %s'' [S (srcif sndpkt), S e]]
           | None \<Rightarrow>
               let (found_udp, found_ipv4) = scan_decoded (False, False) (dec_layers d) in
               if \<not> found_udp \<or> \<not> found_ipv4
               then [Log Warn ''Packet from %s did not contain a IPv4/UDP packet'' [S (srcif sndpkt)]]
               else
                 let ip_options = append_options [] (ip4Options (dec_ip4 d));
                     h = new_header env l (dec_ip4 d) ip_options
                 in Log Debug ''header %v'' [H h] # transmit l h (dec_payload d)))"

subsection \<open>The relay loop: handlePackets\<close>

text \<open>The three cases of the \<^verbatim>\<open>select\<close>: a message from the listener's own channel, a
  packet from its capture handle, a tick.\<close>

datatype Event =
    FromSendpkt Send
  | FromPackets Packet
  | FromTicker

text \<open>One iteration of the loop of \<^verbatim>\<open>handlePackets\<close>, for the event the \<^verbatim>\<open>select\<close>
  received.\<close>

definition handlePackets_select :: "Env \<Rightarrow> Listen \<Rightarrow> Event \<Rightarrow> Effect list" where
  "handlePackets_select env l ev =
     (case ev of
        FromSendpkt s \<Rightarrow> sendPacket env l s
      | FromPackets pkt \<Rightarrow>
          if NetworkLayer pkt = None \<or> TransportLayer pkt = None
             \<or> TransportLayer pkt \<noteq> Some LayerTypeUDP
          then [Log Warn ''%s: Invalid packet'' [S (iface l)]]
          else
            (case ErrorLayer pkt of
               Some errx \<Rightarrow> [Log Error ''%s: Unable to decode: %s'' [S (iface l), S errx]]
             | None \<Rightarrow> []) @
            [Log Debug ''%s: received packet and fowarding onto other interfaces'' [S (iface l)]] @
            (case handle l of
               None \<Rightarrow> [Panic]
             | Some hnd \<Rightarrow> [CallSend pkt (iface l) (handle_LinkType hnd)])
      | FromTicker \<Rightarrow> [Log Debug ''handlePackets(%s) ticker'' [S (iface l)]])"

subsection \<open>The packet feed\<close>

text \<open>
  Modelled from the spec: the packet feed \<^verbatim>\<open>SendPktFeed\<close> with its methods
  \<^verbatim>\<open>RegisterSender\<close> and \<^verbatim>\<open>Send\<close>, which \<^verbatim>\<open>handlePackets\<close> calls and which are not part of
  \<^verbatim>\<open>listen.go\<close>. In the spec the feed is the Distributor: \<^emph>\<open>register\<close> "adds an egress
  target to the routing table keyed by interface name", and \<^emph>\<open>broadcast\<close> is "for every
  registered interface name other than the message's source interface, enqueue the
  message onto that target's queue". A target is the channel the listener registered,
  with the capacity \<^verbatim>\<open>processListener\<close> gave it (100). On a full queue the spec has the
  producer block or the message dropped, and in neither case may "a stall on one queue
  block delivery to the others": the message is not put into the full queue and the
  broadcast goes on with the next target.
\<close>

type_synonym SendPktFeed = "(string \<times> SendChan) list"

fun RegisterSender :: "SendPktFeed \<Rightarrow> SendChan \<Rightarrow> string \<Rightarrow> SendPktFeed" where
  "RegisterSender [] ch name = [(name, ch)]"
| "RegisterSender ((n, c) # s) ch name =
     (if n = name then (name, ch) # s else (n, c) # RegisterSender s ch name)"

text \<open>Offering a message to one channel: it is enqueued when the channel has room.\<close>

definition offer :: "SendChan \<Rightarrow> Send \<Rightarrow> SendChan" where
  "offer ch m =
     (if length (waiting ch) < capacity ch then ch\<lparr>waiting := waiting ch @ [m]\<rparr> else ch)"

fun feed_Send :: "SendPktFeed \<Rightarrow> Packet \<Rightarrow> string \<Rightarrow> LinkType \<Rightarrow> SendPktFeed" where
  "feed_Send [] p src lt = []"
| "feed_Send ((thisif, ch) # s) p src lt =
     (if thisif = src then (thisif, ch) # feed_Send s p src lt
      else (thisif, offer ch \<lparr>packet = p, srcif = src, linkType = lt\<rparr>) # feed_Send s p src lt)"

text \<open>Taking the first waiting message out of the channel of one interface.\<close>

fun feed_pop :: "SendPktFeed \<Rightarrow> string \<Rightarrow> SendPktFeed" where
  "feed_pop [] name = []"
| "feed_pop ((n, ch) # s) name =
     (if n = name then (n, ch\<lparr>waiting := tl (waiting ch)\<rparr>) # s else (n, ch) # feed_pop s name)"

text \<open>The calls of \<^verbatim>\<open>s.Send\<close> in an effect trace, applied to the feed in order.\<close>

fun run_calls :: "SendPktFeed \<Rightarrow> Effect list \<Rightarrow> SendPktFeed" where
  "run_calls s [] = s"
| "run_calls s (CallSend p n t # es) = run_calls (feed_Send s p n t) es"
| "run_calls s (_ # es) = run_calls s es"

text \<open>\<^verbatim>\<open>handlePackets\<close> begins with \<^verbatim>\<open>s.RegisterSender(l.sendpkt, l.iface)\<close> (line 86). In
  the spec the routing table is filled during startup, before any listener handles a
  packet: the feed the relay loops start from is the one every configured listener has
  registered with.\<close>

definition handlePackets_start :: "Listen \<Rightarrow> SendPktFeed \<Rightarrow> SendPktFeed" where
  "handlePackets_start l s = RegisterSender s (sendpkt l) (iface l)"

definition startup_feed :: "Listen list \<Rightarrow> SendPktFeed" where
  "startup_feed ls = foldl (\<lambda>s l. handlePackets_start l s) [] ls"

text \<open>Which case of the \<^verbatim>\<open>select\<close> is ready. One iteration of the relay loop on the shared
  feed: a receive on the listener's own channel takes the first message waiting under the
  listener's name (and does nothing when there is none); a captured packet runs the
  capture case and then the calls of \<^verbatim>\<open>s.Send\<close> it made.\<close>

datatype Ready =
    ReadySendpkt
  | ReadyPackets Packet
  | ReadyTicker

definition handlePackets_iter ::
  "Env \<Rightarrow> Listen \<Rightarrow> SendPktFeed \<Rightarrow> Ready \<Rightarrow> Effect list \<times> SendPktFeed" where
  "handlePackets_iter env l s r =
     (case r of
        ReadySendpkt \<Rightarrow>
          (case map_of s (iface l) of
             None \<Rightarrow> ([], s)
           | Some ch \<Rightarrow>
               (case waiting ch of
                  [] \<Rightarrow> ([], s)
                | m # q \<Rightarrow> (handlePackets_select env l (FromSendpkt m), feed_pop s (iface l))))
      | ReadyPackets pkt \<Rightarrow>
          (let es = handlePackets_select env l (FromPackets pkt) in (es, run_calls s es))
      | ReadyTicker \<Rightarrow> (handlePackets_select env l FromTicker, s))"

text \<open>Whether a trace ends the process (an exit or a panic), and a run of the relay: the
  iterations of the listeners in the order of a schedule, up to the first one that ends
  the process.\<close>

fun ended :: "Effect list \<Rightarrow> bool" where
  "ended [] = False"
| "ended (Exit n # es) = True"
| "ended (Panic # es) = True"
| "ended (_ # es) = ended es"

fun relay_run :: "Env \<Rightarrow> SendPktFeed \<Rightarrow> (Listen \<times> Ready) list \<Rightarrow> SendPktFeed" where
  "relay_run env s [] = s"
| "relay_run env s ((l, r) # evs) =
     (case handlePackets_iter env l s r of
        (es, s') \<Rightarrow> if ended es then s' else relay_run env s' evs)"

text \<open>No message waits in the channel of the interface it was captured on; no channel
  holds more messages than its capacity.\<close>

definition no_echo :: "SendPktFeed \<Rightarrow> bool" where
  "no_echo s = list_all (\<lambda>(n, ch). list_all (\<lambda>m. srcif m \<noteq> n) (waiting ch)) s"

definition feed_bounded :: "SendPktFeed \<Rightarrow> bool" where
  "feed_bounded s = list_all (\<lambda>(n, ch). length (waiting ch) \<le> capacity ch) s"

subsection \<open>Decoding IPv4 options\<close>

text \<open>The loop of gopacket's \<^verbatim>\<open>IPv4.DecodeFromBytes\<close> that reads the options from the
  bytes of the header after its first twenty: option 0 ends the list (the rest is
  padding), option 1 is one byte, every other option is type, length and data. The result
  is the error, or the options and the padding.\<close>

function decode_options ::
  "byte list \<Rightarrow> IPv4Option list \<Rightarrow> string + (IPv4Option list \<times> byte list)" where
  "decode_options [] opts = Inr (opts, [])"
| "decode_options (t # rest) opts =
     (if t = 0 then
        Inr (opts @ [\<lparr>OptionType = t, OptionLength = 1, OptionData = []\<rparr>], rest)
      else if t = 1 then
        decode_options rest (opts @ [\<lparr>OptionType = t, OptionLength = 1, OptionData = []\<rparr>])
      else if length (t # rest) < 2 then
        Inl ''Invalid ip4 option length. Length %d less than 2''
      else
        let len = rest ! 0 in
        if length (t # rest) < unat len then
          Inl ''IP option length exceeds remaining IP header size, option type %v length %v''
        else if unat len \<le> 2 then
          Inl ''Invalid IP option type %v length %d. Must be greater than 2''
        else
          decode_options (drop (unat len) (t # rest))
            (opts @ [\<lparr>OptionType = t, OptionLength = len,
                      OptionData = drop 2 (take (unat len) (t # rest))\<rparr>]))"
  by pat_completeness auto
termination
  by (relation "measure (\<lambda>(data, opts). length data)") auto

subsection \<open>A concrete relay\<close>

text \<open>The scenario of two interfaces \<open>eth0\<close> and \<open>eth1\<close>: a UDP broadcast from
  192.168.1.50 port 12345 to 192.168.1.255 port 9999 with TTL 64 and the payload \<open>hi\<close>,
  captured on \<open>eth0\<close> as an Ethernet frame, and the listener of \<open>eth1\<close>, configured with
  the destination 192.168.2.255. The header has the don't-fragment flag set (flags 2).\<close>

definition example_frame :: "byte list" where
  "example_frame =
     [0xff, 0xff, 0xff, 0xff, 0xff, 0xff, 0x02, 0x00, 0x00, 0x00, 0x00, 0x01, 0x08, 0x00,
      0x45, 0x00, 0x00, 0x1e, 0x1c, 0x46, 0x40, 0x00, 0x40, 0x11, 0x9a, 0x07,
      0xc0, 0xa8, 0x01, 0x32, 0xc0, 0xa8, 0x01, 0xff,
      0x30, 0x39, 0x27, 0x0f, 0x00, 0x0a, 0x00, 0x00,
      0x68, 0x69]"

definition example_ip4 :: IPv4 where
  "example_ip4 =
     \<lparr>ip4Version = 4, ip4IHL = 5, ip4TOS = 0, ip4Length = 30, ip4Id = 0x1c46, ip4Flags = 2,
      ip4FragOffset = 0, ip4TTL = 64, ip4Protocol = 17, ip4Checksum = 0x9a07,
      ip4SrcIP = [192, 168, 1, 50], ip4DstIP = [192, 168, 1, 255],
      ip4Options = [], ip4Padding = []\<rparr>"

definition example_decoded :: Decoded where
  "example_decoded =
     \<lparr>dec_err = None,
      dec_layers = [LayerTypeEthernet, LayerTypeIPv4, LayerTypeUDP, LayerTypePayload],
      dec_ip4 = example_ip4, dec_payload = [0x68, 0x69]\<rparr>"

text \<open>The same datagram with a header of six words: the router-alert option
  (bytes 148, 4, 0, 0) follows the addresses.\<close>

definition example_ip4_opt :: IPv4 where
  "example_ip4_opt =
     \<lparr>ip4Version = 4, ip4IHL = 6, ip4TOS = 0, ip4Length = 34, ip4Id = 0x1c46, ip4Flags = 2,
      ip4FragOffset = 0, ip4TTL = 64, ip4Protocol = 17, ip4Checksum = 0x04ff,
      ip4SrcIP = [192, 168, 1, 50], ip4DstIP = [192, 168, 1, 255],
      ip4Options = [\<lparr>OptionType = 148, OptionLength = 4, OptionData = [0, 0]\<rparr>],
      ip4Padding = []\<rparr>"

definition example_decoded_opt :: Decoded where
  "example_decoded_opt =
     \<lparr>dec_err = None,
      dec_layers = [LayerTypeEthernet, LayerTypeIPv4, LayerTypeUDP, LayerTypePayload],
      dec_ip4 = example_ip4_opt, dec_payload = [0x68, 0x69]\<rparr>"

text \<open>An Ethernet frame with an IPv4 header and nothing after it: the parser reports no
  error and no UDP layer.\<close>

definition example_decoded_no_udp :: Decoded where
  "example_decoded_no_udp =
     \<lparr>dec_err = None, dec_layers = [LayerTypeEthernet, LayerTypeIPv4],
      dec_ip4 = example_ip4\<lparr>ip4Length := 20\<rparr>, dec_payload = []\<rparr>"

text \<open>The libraries' answers in the scenario: the parser's result for the frame at hand
  is given, and \<^verbatim>\<open>net.ParseIP\<close> knows the configured address (in the 16-byte form
  it returns for an IPv4 address).\<close>

definition example_env :: "Decoded \<Rightarrow> Env" where
  "example_env d =
     \<lparr>DecodeLayers = (\<lambda>first data. d),
      ParseIP = (\<lambda>s. if s = ''192.168.2.255''
                      then [0, 0, 0, 0, 0, 0, 0, 0, 0, 0, 0xff, 0xff, 192, 168, 2, 255]
                      else [])\<rparr>"

definition example_listen :: Listen where
  "example_listen =
     \<lparr>iface = ''eth1'', filter' = ''udp'', ports = [], ipaddr = ''192.168.2.255'',
      promisc = False, handle = Some \<lparr>handle_LinkType = LinkTypeEthernet\<rparr>,
      raw = Some \<lparr>SetControlMessage_err = None, WriteTo_err = (\<lambda>h p. None)\<rparr>,
      timeout = 0, sendpkt = make_chan SendBufferSize\<rparr>"

definition example_packet :: Packet where
  "example_packet =
     \<lparr>Data = example_frame, NetworkLayer = Some LayerTypeIPv4,
      TransportLayer = Some LayerTypeUDP, ErrorLayer = None\<rparr>"

definition example_send :: Send where
  "example_send = \<lparr>packet = example_packet, srcif = ''eth0'', linkType = LinkTypeEthernet\<rparr>"

text \<open>The listener of \<open>eth0\<close>, and the feed both listeners have registered with.\<close>

definition example_listen0 :: Listen where
  "example_listen0 = example_listen\<lparr>iface := ''eth0'', ipaddr := ''192.168.1.255''\<rparr>"

definition example_feed :: SendPktFeed where
  "example_feed = startup_feed [example_listen0, example_listen]"

section \<open>Properties of the rewrite step\<close>

subsection \<open>The path through sendPacket\<close>

lemma parser_first_layer_Some:
  "parser_first_layer lt = Some first \<longleftrightarrow>
     (lt = LinkTypeNull \<or> lt = LinkTypeLoop) \<and> first = LayerTypeLoopback
     \<or> lt = LinkTypeEthernet \<and> first = LayerTypeEthernet"
  by (auto simp: parser_first_layer_def LinkTypeNull_def LinkTypeLoop_def LinkTypeEthernet_def)

lemma parser_first_layer_None:
  "parser_first_layer lt = None \<longleftrightarrow>
     lt \<noteq> LinkTypeNull \<and> lt \<noteq> LinkTypeLoop \<and> lt \<noteq> LinkTypeEthernet"
  by (simp add: parser_first_layer_def)

lemma scan_decoded_eq:
  "scan_decoded (u, i) ls = (u \<or> LayerTypeUDP \<in> set ls, i \<or> LayerTypeIPv4 \<in> set ls)"
  by (induction ls arbitrary: u i) (auto split: LayerType.splits)

lemma sendPacket_decoded:
  assumes "parser_first_layer (linkType m) = Some first"
    and "d = DecodeLayers env first (Data (packet m))"
    and "dec_err d = None"
    and "LayerTypeIPv4 \<in> set (dec_layers d)"
    and "LayerTypeUDP \<in> set (dec_layers d)"
  shows "sendPacket env l m =
           Log Debug ''processing packet from %s on %s'' [S (srcif m), S (iface l)] #
           Log Debug ''header %v''
             [H (new_header env l (dec_ip4 d) (append_options [] (ip4Options (dec_ip4 d))))] #
           transmit l (new_header env l (dec_ip4 d) (append_options [] (ip4Options (dec_ip4 d))))
             (dec_payload d)"
  using assms by (simp add: sendPacket_def scan_decoded_eq Let_def)

lemma writes_transmit:
  "writes (transmit l h p) =
     (case raw l of
        None \<Rightarrow> []
      | Some r \<Rightarrow> (case SetControlMessage_err r of None \<Rightarrow> [(h, p)] | Some e \<Rightarrow> []))"
  by (simp add: transmit_def split: option.splits)

lemma To4_four: "length ip = 4 \<Longrightarrow> To4 ip = ip"
  by (simp add: To4_def)

lemma append_options_concat:
  "append_options acc opts = acc @ concat (map (\<lambda>opt. bytes_of_string (IPv4Option_String opt)) opts)"
  by (induction opts arbitrary: acc) auto

subsection \<open>The fields of the new header\<close>

text \<open>
  C2. Let the link type of a message be one of the three the \<^verbatim>\<open>switch\<close> knows, let the
  parser decode its frame without error into layers that hold IPv4 and UDP, and let the
  decoded source address have the four bytes gopacket gives it. Then \<^verbatim>\<open>sendPacket\<close> builds
  one header \<open>h\<close>, logs it, and hands nothing to the raw socket but \<open>h\<close> with the decoded
  payload (exactly that, once, when \<^verbatim>\<open>SetControlMessage\<close> succeeds). In \<open>h\<close> the version is
  4, the length is four times the IHL, the total length and the TTL are the decoded ones,
  the protocol is 17, the checksum 0, the source address is the decoded one and the
  destination is the listener's configured address as \<^verbatim>\<open>net.ParseIP\<close> reads it.
\<close>

theorem rewritten_header_fields:
  assumes "parser_first_layer (linkType m) = Some first"
    and "d = DecodeLayers env first (Data (packet m))"
    and "dec_err d = None"
    and "LayerTypeIPv4 \<in> set (dec_layers d)"
    and "LayerTypeUDP \<in> set (dec_layers d)"
    and "length (ip4SrcIP (dec_ip4 d)) = 4"
  shows "\<exists>h. Log Debug ''header %v'' [H h] \<in> set (sendPacket env l m)
           \<and> (\<forall>w \<in> set (writes (sendPacket env l m)). w = (h, dec_payload d))
           \<and> (\<forall>r. raw l = Some r \<and> SetControlMessage_err r = None \<longrightarrow>
                  writes (sendPacket env l m) = [(h, dec_payload d)])
           \<and> Version h = 4
           \<and> Len h = 4 * uint (ip4IHL (dec_ip4 d))
           \<and> TotalLen h = uint (ip4Length (dec_ip4 d))
           \<and> TTL h = uint (ip4TTL (dec_ip4 d))
           \<and> Protocol h = 17
           \<and> Checksum h = 0
           \<and> Src h = ip4SrcIP (dec_ip4 d)
           \<and> Dst h = To4 (ParseIP env (ipaddr l))"
proof -
  let ?h = "new_header env l (dec_ip4 d) (append_options [] (ip4Options (dec_ip4 d)))"
  have run: "sendPacket env l m =
      Log Debug ''processing packet from %s on %s'' [S (srcif m), S (iface l)] #
      Log Debug ''header %v'' [H ?h] # transmit l ?h (dec_payload d)"
    using assms(1-5) by (rule sendPacket_decoded)
  have w: "writes (sendPacket env l m) = writes (transmit l ?h (dec_payload d))"
    by (simp add: run)
  have 1: "Log Debug ''header %v'' [H ?h] \<in> set (sendPacket env l m)"
    by (simp add: run)
  have 2: "\<forall>w \<in> set (writes (sendPacket env l m)). w = (?h, dec_payload d)"
    by (auto simp: w writes_transmit split: option.splits)
  have 3: "\<forall>r. raw l = Some r \<and> SetControlMessage_err r = None \<longrightarrow>
             writes (sendPacket env l m) = [(?h, dec_payload d)]"
    by (simp add: w writes_transmit)
  have 4: "Version ?h = 4 \<and> Len ?h = 4 * uint (ip4IHL (dec_ip4 d))
         \<and> TotalLen ?h = uint (ip4Length (dec_ip4 d)) \<and> TTL ?h = uint (ip4TTL (dec_ip4 d))
         \<and> Protocol ?h = 17 \<and> Checksum ?h = 0"
    by (simp add: new_header_def)
  have 5: "Src ?h = ip4SrcIP (dec_ip4 d) \<and> Dst ?h = To4 (ParseIP env (ipaddr l))"
    using assms(6) by (simp add: new_header_def To4_four)
  from 1 2 3 4 5 show ?thesis by blast
qed

theorem rewritten_header_fields_witness:
  "parser_first_layer (linkType example_send) = Some LayerTypeEthernet
   \<and> example_decoded =
       DecodeLayers (example_env example_decoded) LayerTypeEthernet (Data (packet example_send))
   \<and> dec_err example_decoded = None
   \<and> LayerTypeIPv4 \<in> set (dec_layers example_decoded)
   \<and> LayerTypeUDP \<in> set (dec_layers example_decoded)
   \<and> length (ip4SrcIP (dec_ip4 example_decoded)) = 4
   \<and> (\<exists>h. writes (sendPacket (example_env example_decoded) example_listen example_send) =
              [(h, [0x68, 0x69])]
          \<and> Version h = 4 \<and> Len h = 20 \<and> TotalLen h = 30 \<and> TTL h = 64 \<and> Protocol h = 17
          \<and> Checksum h = 0 \<and> Src h = [192, 168, 1, 50] \<and> Dst h = [192, 168, 2, 255])"
proof -
  have a: "parser_first_layer (linkType example_send) = Some LayerTypeEthernet"
    by (simp add: parser_first_layer_def example_send_def LinkTypeNull_def LinkTypeLoop_def
        LinkTypeEthernet_def)
  have b: "example_decoded =
      DecodeLayers (example_env example_decoded) LayerTypeEthernet (Data (packet example_send))"
    by (simp add: example_env_def)
  have c: "dec_err example_decoded = None"
    and d: "LayerTypeIPv4 \<in> set (dec_layers example_decoded)"
    and e: "LayerTypeUDP \<in> set (dec_layers example_decoded)"
    and f: "length (ip4SrcIP (dec_ip4 example_decoded)) = 4"
    by (simp_all add: example_decoded_def example_ip4_def)
  have r: "raw example_listen =
             Some \<lparr>SetControlMessage_err = None, WriteTo_err = (\<lambda>h p. None)\<rparr>
           \<and> SetControlMessage_err \<lparr>SetControlMessage_err = None, WriteTo_err = (\<lambda>h p. None)\<rparr>
             = None"
    by (simp add: example_listen_def)
  have p: "To4 (ParseIP (example_env example_decoded) (ipaddr example_listen)) =
             [192, 168, 2, 255]"
    by (simp add: example_env_def example_listen_def To4_def)
  have v: "dec_payload example_decoded = [0x68, 0x69]
         \<and> uint (ip4IHL (dec_ip4 example_decoded)) = 5
         \<and> uint (ip4Length (dec_ip4 example_decoded)) = 30
         \<and> uint (ip4TTL (dec_ip4 example_decoded)) = 64
         \<and> ip4SrcIP (dec_ip4 example_decoded) = [192, 168, 1, 50]"
    by (simp add: example_decoded_def example_ip4_def)
  from rewritten_header_fields [OF a b c d e f, of example_listen]
  obtain h where h: "\<forall>r. raw example_listen = Some r \<and> SetControlMessage_err r = None \<longrightarrow>
        writes (sendPacket (example_env example_decoded) example_listen example_send) =
          [(h, dec_payload example_decoded)]"
      "Version h = 4" "Len h = 4 * uint (ip4IHL (dec_ip4 example_decoded))"
      "TotalLen h = uint (ip4Length (dec_ip4 example_decoded))"
      "TTL h = uint (ip4TTL (dec_ip4 example_decoded))" "Protocol h = 17" "Checksum h = 0"
      "Src h = ip4SrcIP (dec_ip4 example_decoded)"
      "Dst h = To4 (ParseIP (example_env example_decoded) (ipaddr example_listen))"
    by blast
  from h(1) r have "writes (sendPacket (example_env example_decoded) example_listen example_send)
      = [(h, dec_payload example_decoded)]"
    by blast
  with h(2-9) p v have "writes (sendPacket (example_env example_decoded) example_listen example_send) =
              [(h, [0x68, 0x69])]
          \<and> Version h = 4 \<and> Len h = 20 \<and> TotalLen h = 30 \<and> TTL h = 64 \<and> Protocol h = 17
          \<and> Checksum h = 0 \<and> Src h = [192, 168, 1, 50] \<and> Dst h = [192, 168, 2, 255]"
    by simp
  then have "\<exists>h. writes (sendPacket (example_env example_decoded) example_listen example_send) =
              [(h, [0x68, 0x69])]
          \<and> Version h = 4 \<and> Len h = 20 \<and> TotalLen h = 30 \<and> TTL h = 64 \<and> Protocol h = 17
          \<and> Checksum h = 0 \<and> Src h = [192, 168, 1, 50] \<and> Dst h = [192, 168, 2, 255]"
    by (rule exI)
  with a b c d e f show ?thesis by blast
qed

text \<open>
  C5 (as the code has it). Under the conditions of C2, the type of service, the
  identification and the fragment offset of the new header are the decoded ones; the
  flags are not copied: the struct literal sets \<^verbatim>\<open>Flags: 0\<close>, whatever flags the
  original header carried.
\<close>

theorem rewritten_header_copies:
  assumes "parser_first_layer (linkType m) = Some first"
    and "d = DecodeLayers env first (Data (packet m))"
    and "dec_err d = None"
    and "LayerTypeIPv4 \<in> set (dec_layers d)"
    and "LayerTypeUDP \<in> set (dec_layers d)"
  shows "\<exists>h. Log Debug ''header %v'' [H h] \<in> set (sendPacket env l m)
           \<and> (\<forall>w \<in> set (writes (sendPacket env l m)). fst w = h)
           \<and> (\<forall>r. raw l = Some r \<and> SetControlMessage_err r = None \<longrightarrow>
                  map fst (writes (sendPacket env l m)) = [h])
           \<and> TOS h = uint (ip4TOS (dec_ip4 d))
           \<and> ID h = uint (ip4Id (dec_ip4 d))
           \<and> FragOff h = uint (ip4FragOffset (dec_ip4 d))
           \<and> Flags h = 0"
proof -
  let ?h = "new_header env l (dec_ip4 d) (append_options [] (ip4Options (dec_ip4 d)))"
  have run: "sendPacket env l m =
      Log Debug ''processing packet from %s on %s'' [S (srcif m), S (iface l)] #
      Log Debug ''header %v'' [H ?h] # transmit l ?h (dec_payload d)"
    using assms by (rule sendPacket_decoded)
  have w: "writes (sendPacket env l m) = writes (transmit l ?h (dec_payload d))"
    by (simp add: run)
  have 1: "Log Debug ''header %v'' [H ?h] \<in> set (sendPacket env l m)"
    by (simp add: run)
  have 2: "\<forall>w \<in> set (writes (sendPacket env l m)). fst w = ?h"
    by (auto simp: w writes_transmit split: option.splits)
  have 3: "\<forall>r. raw l = Some r \<and> SetControlMessage_err r = None \<longrightarrow>
             map fst (writes (sendPacket env l m)) = [?h]"
    by (simp add: w writes_transmit)
  have 4: "TOS ?h = uint (ip4TOS (dec_ip4 d)) \<and> ID ?h = uint (ip4Id (dec_ip4 d))
         \<and> FragOff ?h = uint (ip4FragOffset (dec_ip4 d)) \<and> Flags ?h = 0"
    by (simp add: new_header_def)
  from 1 2 3 4 show ?thesis by blast
qed

lemma example_send_written:
  "writes (sendPacket (example_env example_decoded) example_listen example_send) =
     [(\<lparr>Version = 4, Len = 20, TOS = 0, TotalLen = 30, ID = 7238, Flags = 0, FragOff = 0,
        TTL = 64, Protocol = 17, Checksum = 0, Src = [192, 168, 1, 50],
        Dst = [192, 168, 2, 255], Options = []\<rparr>, [0x68, 0x69])]"
  by (simp add: sendPacket_def parser_first_layer_def example_send_def example_env_def
      example_decoded_def example_ip4_def example_listen_def transmit_def new_header_def
      To4_def LinkTypeNull_def LinkTypeLoop_def LinkTypeEthernet_def Let_def)

theorem rewritten_header_copies_witness:
  "parser_first_layer (linkType example_send) = Some LayerTypeEthernet
   \<and> example_decoded =
       DecodeLayers (example_env example_decoded) LayerTypeEthernet (Data (packet example_send))
   \<and> dec_err example_decoded = None
   \<and> LayerTypeIPv4 \<in> set (dec_layers example_decoded)
   \<and> LayerTypeUDP \<in> set (dec_layers example_decoded)
   \<and> (\<exists>h. map fst (writes (sendPacket (example_env example_decoded) example_listen
                example_send)) = [h]
          \<and> TOS h = 0 \<and> ID h = 7238 \<and> FragOff h = 0 \<and> Flags h = 0)"
proof -
  have a: "parser_first_layer (linkType example_send) = Some LayerTypeEthernet"
    by (simp add: parser_first_layer_def example_send_def LinkTypeNull_def LinkTypeLoop_def
        LinkTypeEthernet_def)
  have b: "example_decoded =
      DecodeLayers (example_env example_decoded) LayerTypeEthernet (Data (packet example_send))"
    by (simp add: example_env_def)
  have c: "dec_err example_decoded = None"
    and d: "LayerTypeIPv4 \<in> set (dec_layers example_decoded)"
    and e: "LayerTypeUDP \<in> set (dec_layers example_decoded)"
    by (simp_all add: example_decoded_def)
  have r: "raw example_listen =
             Some \<lparr>SetControlMessage_err = None, WriteTo_err = (\<lambda>h p. None)\<rparr>
           \<and> SetControlMessage_err \<lparr>SetControlMessage_err = None, WriteTo_err = (\<lambda>h p. None)\<rparr>
             = None"
    by (simp add: example_listen_def)
  have v: "uint (ip4TOS (dec_ip4 example_decoded)) = 0
         \<and> uint (ip4Id (dec_ip4 example_decoded)) = 7238
         \<and> uint (ip4FragOffset (dec_ip4 example_decoded)) = 0"
    by (simp add: example_decoded_def example_ip4_def)
  from rewritten_header_copies [OF a b c d e, of example_listen]
  obtain h where h: "\<forall>r. raw example_listen = Some r \<and> SetControlMessage_err r = None \<longrightarrow>
        map fst (writes (sendPacket (example_env example_decoded) example_listen example_send))
          = [h]"
      "TOS h = uint (ip4TOS (dec_ip4 example_decoded))"
      "ID h = uint (ip4Id (dec_ip4 example_decoded))"
      "FragOff h = uint (ip4FragOffset (dec_ip4 example_decoded))" "Flags h = 0"
    by blast
  from h(1) r
  have "map fst (writes (sendPacket (example_env example_decoded) example_listen example_send))
          = [h]"
    by blast
  with h(2-5) v
  have "map fst (writes (sendPacket (example_env example_decoded) example_listen example_send))
          = [h] \<and> TOS h = 0 \<and> ID h = 7238 \<and> FragOff h = 0 \<and> Flags h = 0"
    by simp
  then have "\<exists>h. map fst (writes (sendPacket (example_env example_decoded) example_listen
                example_send)) = [h]
          \<and> TOS h = 0 \<and> ID h = 7238 \<and> FragOff h = 0 \<and> Flags h = 0"
    by (rule exI)
  with a b c d e show ?thesis by blast
qed

text \<open>The claim as it was stated also has the flags copied. The datagram of the scenario
  carries the don't-fragment flag (flags 2); the header written for it has flags 0.\<close>

theorem flags_not_copied:
  "map (\<lambda>w. Flags (fst w))
     (writes (sendPacket (example_env example_decoded) example_listen example_send)) = [0]
   \<and> uint (ip4Flags (dec_ip4 example_decoded)) = 2
   \<and> map (\<lambda>w. Flags (fst w))
       (writes (sendPacket (example_env example_decoded) example_listen example_send)) \<noteq>
     [uint (ip4Flags (dec_ip4 example_decoded))]"
  by (simp add: example_send_written) (simp add: example_decoded_def example_ip4_def)

subsection \<open>The options of the new header\<close>

text \<open>The bytes \<^verbatim>\<open>sendPacket\<close> puts into the options of the new header are the text of
  \<^verbatim>\<open>String()\<close> for each option, one after the other.\<close>

lemma rewritten_options:
  assumes "parser_first_layer (linkType m) = Some first"
    and "d = DecodeLayers env first (Data (packet m))"
    and "dec_err d = None"
    and "LayerTypeIPv4 \<in> set (dec_layers d)"
    and "LayerTypeUDP \<in> set (dec_layers d)"
    and "raw l = Some r" and "SetControlMessage_err r = None"
  shows "map (\<lambda>w. Options (fst w)) (writes (sendPacket env l m)) =
           [concat (map (\<lambda>opt. bytes_of_string (IPv4Option_String opt))
                      (ip4Options (dec_ip4 d)))]"
  using assms(6,7)
  by (simp add: sendPacket_decoded [OF assms(1-5)] writes_transmit new_header_def
      append_options_concat)

text \<open>
  C3 (the code departs from the claim). The claim: the options of the new header are,
  byte for byte, the options of the original header as they were on the wire. For the
  datagram of the scenario with the router-alert option, whose wire bytes 148, 4, 0, 0
  gopacket decodes into one option of type 148 with the data 0, 0, the code writes a
  header whose options are the 21 characters \<open>IPv4Option(148:[0 0])\<close>.
\<close>

theorem options_are_debug_text:
  "decode_options [148, 4, 0, 0] [] = Inr (ip4Options (dec_ip4 example_decoded_opt), [])
   \<and> map (\<lambda>w. Options (fst w))
       (writes (sendPacket (example_env example_decoded_opt) example_listen example_send)) =
     [bytes_of_string ''IPv4Option(148:[0 0])'']
   \<and> bytes_of_string ''IPv4Option(148:[0 0])'' =
       [73, 80, 118, 52, 79, 112, 116, 105, 111, 110, 40, 49, 52, 56, 58, 91, 48, 32, 48, 93, 41]
   \<and> bytes_of_string ''IPv4Option(148:[0 0])'' \<noteq> [148, 4, 0, 0]"
proof -
  have 1: "decode_options [148, 4, 0, 0] [] = Inr (ip4Options (dec_ip4 example_decoded_opt), [])"
    by (simp add: example_decoded_opt_def example_ip4_opt_def)
  have 2: "map (\<lambda>w. Options (fst w))
       (writes (sendPacket (example_env example_decoded_opt) example_listen example_send)) =
     [bytes_of_string ''IPv4Option(148:[0 0])'']"
    by (simp add: sendPacket_def parser_first_layer_def example_send_def example_env_def
        example_decoded_opt_def example_ip4_opt_def example_listen_def transmit_def
        new_header_def IPv4Option_String_def uint8_v_def bytes_v_def digit_def
        LinkTypeNull_def LinkTypeLoop_def LinkTypeEthernet_def Let_def)
  have 3: "bytes_of_string ''IPv4Option(148:[0 0])'' =
       [73, 80, 118, 52, 79, 112, 116, 105, 111, 110, 40, 49, 52, 56, 58, 91, 48, 32, 48, 93, 41]"
    by (simp add: bytes_of_string_def)
  have 4: "bytes_of_string ''IPv4Option(148:[0 0])'' \<noteq> [148, 4, 0, 0]"
    by (simp add: bytes_of_string_def)
  from 1 2 3 4 show ?thesis by blast
qed

text \<open>So the options written for that datagram are 21 bytes long, where its header of six
  words has room for four.\<close>

theorem options_are_debug_text_witness:
  "length (concat (map (\<lambda>w. Options (fst w))
       (writes (sendPacket (example_env example_decoded_opt) example_listen example_send)))) = 21
   \<and> uint (ip4IHL (dec_ip4 example_decoded_opt)) * 4 - 20 = 4"
proof -
  from options_are_debug_text
  have "map (\<lambda>w. Options (fst w))
       (writes (sendPacket (example_env example_decoded_opt) example_listen example_send)) =
     [[73, 80, 118, 52, 79, 112, 116, 105, 111, 110, 40, 49, 52, 56, 58, 91, 48, 32, 48, 93, 41]]"
    by simp
  then show ?thesis
    by (simp add: example_decoded_opt_def example_ip4_opt_def)
qed

subsection \<open>Packets that are dropped, and the fatal case\<close>

text \<open>
  C6. When the link type is one the \<^verbatim>\<open>switch\<close> knows and the parser reports no error,
  but the decoded layers lack IPv4 or lack UDP, \<^verbatim>\<open>sendPacket\<close> logs a warning and
  returns: nothing is handed to the raw socket and the process does not exit.
\<close>

theorem missing_layer_dropped:
  assumes "parser_first_layer (linkType m) = Some first"
    and "d = DecodeLayers env first (Data (packet m))"
    and "dec_err d = None"
    and "LayerTypeIPv4 \<notin> set (dec_layers d) \<or> LayerTypeUDP \<notin> set (dec_layers d)"
  shows "sendPacket env l m =
           [Log Debug ''processing packet from %s on %s'' [S (srcif m), S (iface l)],
            Log Warn ''Packet from %s did not contain a IPv4/UDP packet'' [S (srcif m)]]
       \<and> writes (sendPacket env l m) = []
       \<and> \<not> exits (sendPacket env l m)"
proof -
  have "sendPacket env l m =
           [Log Debug ''processing packet from %s on %s'' [S (srcif m), S (iface l)],
            Log Warn ''Packet from %s did not contain a IPv4/UDP packet'' [S (srcif m)]]"
    using assms by (auto simp: sendPacket_def scan_decoded_eq Let_def)
  then show ?thesis by simp
qed

theorem missing_layer_dropped_witness:
  "parser_first_layer (linkType example_send) = Some LayerTypeEthernet
   \<and> example_decoded_no_udp =
       DecodeLayers (example_env example_decoded_no_udp) LayerTypeEthernet
         (Data (packet example_send))
   \<and> dec_err example_decoded_no_udp = None
   \<and> LayerTypeUDP \<notin> set (dec_layers example_decoded_no_udp)
   \<and> sendPacket (example_env example_decoded_no_udp) example_listen example_send =
       [Log Debug ''processing packet from %s on %s'' [S ''eth0'', S ''eth1''],
        Log Warn ''Packet from %s did not contain a IPv4/UDP packet'' [S ''eth0'']]
   \<and> writes (sendPacket (example_env example_decoded_no_udp) example_listen example_send) = []
   \<and> \<not> exits (sendPacket (example_env example_decoded_no_udp) example_listen example_send)"
proof -
  have a: "parser_first_layer (linkType example_send) = Some LayerTypeEthernet"
    by (simp add: parser_first_layer_def example_send_def LinkTypeNull_def LinkTypeLoop_def
        LinkTypeEthernet_def)
  have b: "example_decoded_no_udp =
      DecodeLayers (example_env example_decoded_no_udp) LayerTypeEthernet
        (Data (packet example_send))"
    by (simp add: example_env_def)
  have c: "dec_err example_decoded_no_udp = None"
    and d: "LayerTypeUDP \<notin> set (dec_layers example_decoded_no_udp)"
    by (simp_all add: example_decoded_no_udp_def)
  from d have d': "LayerTypeIPv4 \<notin> set (dec_layers example_decoded_no_udp)
                 \<or> LayerTypeUDP \<notin> set (dec_layers example_decoded_no_udp)"
    by blast
  have n: "srcif example_send = ''eth0''" "iface example_listen = ''eth1''"
    by (simp_all add: example_send_def example_listen_def)
  from missing_layer_dropped [OF a b c d', of example_listen] a b c d show ?thesis
    by (simp add: n)
qed

text \<open>
  C7 (as the code has it). A message whose link type is none of Null, Loop and Ethernet
  is not a packet that is dropped: it takes the \<^verbatim>\<open>default\<close> case of the \<^verbatim>\<open>switch\<close>,
  which calls \<^verbatim>\<open>log.Fatalf\<close>. \<^verbatim>\<open>sendPacket\<close> logs at fatal level and the process exits;
  nothing is decoded and nothing is handed to the raw socket.
\<close>

theorem unsupported_linktype_is_fatal:
  assumes "linkType m \<noteq> LinkTypeNull"
    and "linkType m \<noteq> LinkTypeLoop"
    and "linkType m \<noteq> LinkTypeEthernet"
  shows "sendPacket env l m =
           [Log Debug ''processing packet from %s on %s'' [S (srcif m), S (iface l)],
            Log Fatal ''Unsupported source linktype: 0x%02x'' [LT (linkType m)],
            Exit 1]
       \<and> exits (sendPacket env l m)
       \<and> writes (sendPacket env l m) = []"
proof -
  have "parser_first_layer (linkType m) = None"
    using assms by (simp add: parser_first_layer_None)
  then have "sendPacket env l m =
           [Log Debug ''processing packet from %s on %s'' [S (srcif m), S (iface l)],
            Log Fatal ''Unsupported source linktype: 0x%02x'' [LT (linkType m)],
            Exit 1]"
    by (simp add: sendPacket_def)
  then show ?thesis by simp
qed

theorem unsupported_linktype_is_fatal_witness:
  "linkType (example_send\<lparr>linkType := 113\<rparr>) \<noteq> LinkTypeNull
   \<and> linkType (example_send\<lparr>linkType := 113\<rparr>) \<noteq> LinkTypeLoop
   \<and> linkType (example_send\<lparr>linkType := 113\<rparr>) \<noteq> LinkTypeEthernet
   \<and> sendPacket (example_env example_decoded) example_listen (example_send\<lparr>linkType := 113\<rparr>) =
       [Log Debug ''processing packet from %s on %s'' [S ''eth0'', S ''eth1''],
        Log Fatal ''Unsupported source linktype: 0x%02x'' [LT 113],
        Exit 1]"
proof -
  have a: "linkType (example_send\<lparr>linkType := 113\<rparr>) \<noteq> LinkTypeNull"
    and b: "linkType (example_send\<lparr>linkType := 113\<rparr>) \<noteq> LinkTypeLoop"
    and c: "linkType (example_send\<lparr>linkType := 113\<rparr>) \<noteq> LinkTypeEthernet"
    by (simp_all add: LinkTypeNull_def LinkTypeLoop_def LinkTypeEthernet_def)
  have n: "srcif example_send = ''eth0''" "iface example_listen = ''eth1''"
    by (simp_all add: example_send_def example_listen_def)
  from unsupported_linktype_is_fatal [OF a b c, of "example_env example_decoded" example_listen]
    a b c show ?thesis
    by (simp add: n)
qed

text \<open>The claim as it was stated has the packet dropped and the process going on. For a
  message captured on a Linux cooked-mode interface (link type 113) the trace of
  \<^verbatim>\<open>sendPacket\<close> ends in the exit of the process.\<close>

theorem unsupported_linktype_exits:
  "exits (sendPacket (example_env example_decoded) example_listen
            (example_send\<lparr>linkType := 113\<rparr>))
   \<and> last (sendPacket (example_env example_decoded) example_listen
            (example_send\<lparr>linkType := 113\<rparr>)) = Exit 1"
  by (simp add: sendPacket_def parser_first_layer_def LinkTypeNull_def LinkTypeLoop_def
      LinkTypeEthernet_def)

section \<open>Properties of the configuration step\<close>

subsection \<open>Splitting at the separator\<close>

lemma Split_not_Nil: "Split s c \<noteq> []"
  by (induction s) (auto split: list.splits)

lemma Split_length: "length (Split s c) = Suc (count_list s c)"
  by (induction s) (auto split: list.splits simp: Split_not_Nil)

lemma Split_no_sep: "c \<notin> set a \<Longrightarrow> Split a c = [a]"
  by (induction a) auto

lemma Split_append_sep: "c \<notin> set a \<Longrightarrow> Split (a @ c # b) c = a # Split b c"
  by (induction a) auto

lemma Split_one_sep: "c \<notin> set a \<Longrightarrow> c \<notin> set b \<Longrightarrow> Split (a @ c # b) c = [a, b]"
  by (simp add: Split_append_sep Split_no_sep)

lemma Split_parts_no_sep: "p \<in> set (Split s c) \<Longrightarrow> c \<notin> set p"
  by (induction s arbitrary: p) (auto split: list.splits if_splits simp: Split_not_Nil)

subsection \<open>No handle is open when processListener ends\<close>

text \<open>\<^verbatim>\<open>processListener\<close> builds every \<^verbatim>\<open>Listen\<close> with \<^verbatim>\<open>handle: nil\<close> and \<^verbatim>\<open>raw: nil\<close>; the
  capture handle and the raw socket are opened later, by \<^verbatim>\<open>initalizeInterface\<close>. So
  whether the loop returns or exits, no \<^verbatim>\<open>Listen\<close> that exists then has a handle or a
  socket.\<close>

lemma loop_handles_nil:
  "processListener_loop inSlice interfaces ret lp pr bf po to = Inr (interfaces', ret') \<Longrightarrow>
   \<forall>l \<in> set ret. handle l = None \<and> raw l = None \<Longrightarrow>
   \<forall>l \<in> set ret'. handle l = None \<and> raw l = None"
proof (induction lp arbitrary: interfaces ret)
  case Nil
  then show ?case by simp
next
  case (Cons i lp)
  show ?case
  proof (cases "length (Split i CHR ''@'') \<noteq> 2 \<or>
                inSlice (Split i CHR ''@'' ! 0 @ ''@'') interfaces")
    case True
    then show ?thesis using Cons.prems(1) by (auto simp: Let_def split: if_splits)
  next
    case False
    then have "processListener_loop inSlice (interfaces @ [Split i CHR ''@'' ! 0])
                 (ret @ [new_Listen i pr bf po to]) lp pr bf po to = Inr (interfaces', ret')"
      using Cons.prems(1) by (simp add: Let_def new_Listen_def)
    moreover have "\<forall>l \<in> set (ret @ [new_Listen i pr bf po to]). handle l = None \<and> raw l = None"
      using Cons.prems(2) by (simp add: new_Listen_def)
    ultimately show ?thesis by (rule Cons.IH)
  qed
qed

lemma loop_exit_handles_nil:
  "processListener_loop inSlice interfaces ret lp pr bf po to = Inl (e, built) \<Longrightarrow>
   \<forall>l \<in> set ret. handle l = None \<and> raw l = None \<Longrightarrow>
   \<forall>l \<in> set built. handle l = None \<and> raw l = None"
proof (induction lp arbitrary: interfaces ret)
  case Nil
  then show ?case by simp
next
  case (Cons i lp)
  show ?case
  proof (cases "length (Split i CHR ''@'') \<noteq> 2 \<or>
                inSlice (Split i CHR ''@'' ! 0 @ ''@'') interfaces")
    case True
    then have "built = ret"
      using Cons.prems(1) by (auto simp: Let_def split: if_splits)
    then show ?thesis using Cons.prems(2) by simp
  next
    case False
    then have "processListener_loop inSlice (interfaces @ [Split i CHR ''@'' ! 0])
                 (ret @ [new_Listen i pr bf po to]) lp pr bf po to = Inl (e, built)"
      using Cons.prems(1) by (simp add: Let_def new_Listen_def)
    moreover have "\<forall>l \<in> set (ret @ [new_Listen i pr bf po to]). handle l = None \<and> raw l = None"
      using Cons.prems(2) by (simp add: new_Listen_def)
    ultimately show ?thesis by (rule Cons.IH)
  qed
qed

subsection \<open>Malformed entries\<close>

lemma loop_fails:
  "\<exists>i \<in> set lp. length (Split i CHR ''@'') \<noteq> 2 \<Longrightarrow>
   \<exists>e built. processListener_loop inSlice interfaces ret lp pr bf po to = Inl (e, built)"
  by (induction lp arbitrary: interfaces ret) (auto simp: Let_def)

text \<open>
  C8. A configuration list with an entry that does not split at \<open>@\<close> into exactly two
  parts ends in a fatal error, whatever the duplicate check does: \<^verbatim>\<open>processListener\<close>
  (from any slice of interface names) and \<^verbatim>\<open>initalizeListeners\<close> exit with the error,
  and at that exit no capture handle and no raw socket has been opened: every \<^verbatim>\<open>Listen\<close>
  built from the entries before the malformed one still has \<^verbatim>\<open>handle: nil\<close> and
  \<^verbatim>\<open>raw: nil\<close>. When the malformed entry is the first of the list, the error is the one
  of line 44 for that entry and no \<^verbatim>\<open>Listen\<close> has been built at all.
\<close>

theorem malformed_entry_is_fatal:
  assumes "i \<in> set lp" and "length (Split i CHR ''@'') \<noteq> 2"
  shows "(\<exists>e built. processListener inSlice interfaces lp pr bf po to = Inl (e, built)
            \<and> (\<forall>l \<in> set built. handle l = None \<and> raw l = None))
       \<and> (\<exists>e built. initalizeListeners inSlice lp pr bf po to = Inl (e, built)
            \<and> (\<forall>l \<in> set built. handle l = None \<and> raw l = None))
       \<and> processListener inSlice interfaces (i # rest) pr bf po to = Inl (InvalidEntry i, [])"
proof -
  have bad: "\<exists>i \<in> set lp. length (Split i CHR ''@'') \<noteq> 2"
    using assms by blast
  have 1: "\<exists>e built. processListener inSlice interfaces lp pr bf po to = Inl (e, built)
            \<and> (\<forall>l \<in> set built. handle l = None \<and> raw l = None)" for interfaces
  proof -
    from bad obtain e built
      where r: "processListener_loop inSlice interfaces [] lp pr bf po to = Inl (e, built)"
      using loop_fails by blast
    then have "\<forall>l \<in> set built. handle l = None \<and> raw l = None"
      by (rule loop_exit_handles_nil) simp
    with r show ?thesis
      by (auto simp: processListener_def)
  qed
  from 1 [of "[]"]
  have 2: "\<exists>e built. initalizeListeners inSlice lp pr bf po to = Inl (e, built)
            \<and> (\<forall>l \<in> set built. handle l = None \<and> raw l = None)"
    by (auto simp: initalizeListeners_def)
  have 3: "processListener inSlice interfaces (i # rest) pr bf po to = Inl (InvalidEntry i, [])"
    using assms(2) by (simp add: processListener_def Let_def)
  from 1 2 3 show ?thesis by blast
qed

theorem malformed_entry_is_fatal_witness:
  "''eth0'' \<in> set [''eth1@192.168.2.255'', ''eth0'']
   \<and> length (Split ''eth0'' CHR ''@'') \<noteq> 2
   \<and> initalizeListeners stringPrefixInSlice [''eth1@192.168.2.255'', ''eth0'']
       False ''udp'' [] 0 =
     Inl (InvalidEntry ''eth0'',
          [\<lparr>iface = ''eth1'', filter' = ''udp'', ports = [], ipaddr = ''192.168.2.255'',
            promisc = False, handle = None, raw = None, timeout = 0,
            sendpkt = \<lparr>capacity = 100, waiting = []\<rparr>\<rparr>])
   \<and> (\<exists>e built. initalizeListeners stringPrefixInSlice [''eth1@192.168.2.255'', ''eth0'']
         False ''udp'' [] 0 = Inl (e, built)
         \<and> list_all (\<lambda>l. handle l = None \<and> raw l = None) built)
   \<and> length (Split ''eth0@10.0.0.255@x'' CHR ''@'') = 3"
proof -
  have a: "''eth0'' \<in> set [''eth1@192.168.2.255'', ''eth0'']"
    by simp
  have b: "length (Split ''eth0'' CHR ''@'') \<noteq> 2"
    by simp
  have c: "initalizeListeners stringPrefixInSlice [''eth1@192.168.2.255'', ''eth0'']
             False ''udp'' [] 0 =
     Inl (InvalidEntry ''eth0'',
          [\<lparr>iface = ''eth1'', filter' = ''udp'', ports = [], ipaddr = ''192.168.2.255'',
            promisc = False, handle = None, raw = None, timeout = 0,
            sendpkt = \<lparr>capacity = 100, waiting = []\<rparr>\<rparr>])"
    by (simp add: initalizeListeners_def processListener_def stringPrefixInSlice_def Let_def
        make_chan_def SendBufferSize_def)
  have d: "length (Split ''eth0@10.0.0.255@x'' CHR ''@'') = 3"
    by simp
  from malformed_entry_is_fatal [OF a b, of stringPrefixInSlice "[]" False "''udp''" "[]" 0]
  have "\<exists>e built. initalizeListeners stringPrefixInSlice [''eth1@192.168.2.255'', ''eth0'']
         False ''udp'' [] 0 = Inl (e, built)
         \<and> list_all (\<lambda>l. handle l = None \<and> raw l = None) built"
    by (simp only: list_all_iff)
  with a b c d show ?thesis by blast
qed

subsection \<open>Entries with an empty part\<close>

text \<open>
  C10. An entry with exactly one \<open>@\<close> (\<open>a @ ''@'' @ b\<close> where neither \<open>a\<close> nor \<open>b\<close> holds
  an \<open>@\<close>) is accepted by \<^verbatim>\<open>processListener\<close>, also when \<open>a\<close> or \<open>b\<close> is empty: from the
  empty slice of interface names, where no duplicate check can fire, the result is no
  error but one \<^verbatim>\<open>Listen\<close> with \<open>iface = a\<close> and \<open>ipaddr = b\<close>.
\<close>

theorem entry_with_one_at_accepted:
  assumes "CHR ''@'' \<notin> set a" and "CHR ''@'' \<notin> set b" and "\<not> inSlice (a @ ''@'') []"
  shows "processListener inSlice [] [a @ ''@'' @ b] pr bf po to =
           Inr ([a], [\<lparr>iface = a, filter' = bf, ports = po, ipaddr = b, promisc = pr,
                       handle = None, raw = None, timeout = to,
                       sendpkt = make_chan SendBufferSize\<rparr>])"
proof -
  have "Split (a @ ''@'' @ b) CHR ''@'' = [a, b]"
    using assms(1,2) by (simp add: Split_one_sep)
  then show ?thesis
    using assms(3) by (simp add: processListener_def Let_def)
qed

theorem entry_with_one_at_accepted_witness:
  "CHR ''@'' \<notin> set ''''
   \<and> CHR ''@'' \<notin> set ''192.168.1.255''
   \<and> \<not> stringPrefixInSlice ('''' @ ''@'') []
   \<and> processListener stringPrefixInSlice [] [''@192.168.1.255''] False ''udp'' [] 0 =
       Inr ([''''], [\<lparr>iface = '''', filter' = ''udp'', ports = [], ipaddr = ''192.168.1.255'',
                      promisc = False, handle = None, raw = None, timeout = 0,
                      sendpkt = make_chan SendBufferSize\<rparr>])
   \<and> processListener stringPrefixInSlice [] [''eth0@''] False ''udp'' [] 0 =
       Inr ([''eth0''], [\<lparr>iface = ''eth0'', filter' = ''udp'', ports = [], ipaddr = '''',
                      promisc = False, handle = None, raw = None, timeout = 0,
                      sendpkt = make_chan SendBufferSize\<rparr>])"
proof -
  have n: "\<not> stringPrefixInSlice (s @ ''@'') []" for s
    by (simp add: stringPrefixInSlice_def)
  have 1: "CHR ''@'' \<notin> set ''''" and 2: "CHR ''@'' \<notin> set ''192.168.1.255''"
    and 3: "CHR ''@'' \<notin> set ''eth0''"
    by simp_all
  from entry_with_one_at_accepted [of "''''" "''192.168.1.255''" stringPrefixInSlice
         False "''udp''" "[]" 0, OF 1 2 n]
       entry_with_one_at_accepted [of "''eth0''" "''''" stringPrefixInSlice
         False "''udp''" "[]" 0, OF 3 1 n]
  show ?thesis
    using n [of "''''"] by simp
qed

subsection \<open>Duplicate interfaces\<close>






section \<open>Properties of the relay loop\<close>

subsection \<open>The capture case\<close>

lemma capture_case:
  assumes "NetworkLayer pkt \<noteq> None" and "TransportLayer pkt = Some LayerTypeUDP"
    and "handle l = Some hnd"
  shows "handlePackets_select env l (FromPackets pkt) =
           (case ErrorLayer pkt of
              Some errx \<Rightarrow> [Log Error ''%s: Unable to decode: %s'' [S (iface l), S errx]]
            | None \<Rightarrow> []) @
           [Log Debug ''%s: received packet and fowarding onto other interfaces'' [S (iface l)],
            CallSend pkt (iface l) (handle_LinkType hnd)]"
  using assms by (simp add: handlePackets_select_def)

lemma feed_Send_map:
  "feed_Send s p src lt =
     map (\<lambda>(n, ch). (n, if n = src then ch
                         else offer ch \<lparr>packet = p, srcif = src, linkType = lt\<rparr>)) s"
  by (induction s) auto

lemma capture_iter:
  assumes "NetworkLayer pkt \<noteq> None" and "TransportLayer pkt = Some LayerTypeUDP"
    and "handle l = Some hnd"
  shows "handlePackets_iter env l s (ReadyPackets pkt) =
           (handlePackets_select env l (FromPackets pkt),
            map (\<lambda>(n, ch). (n, if n = iface l then ch
                                else offer ch \<lparr>packet = pkt, srcif = iface l,
                                             linkType = handle_LinkType hnd\<rparr>)) s)"
proof -
  have "run_calls s (xs @ [CallSend pkt (iface l) (handle_LinkType hnd)]) =
          feed_Send (run_calls s xs) pkt (iface l) (handle_LinkType hnd)" for xs
    by (induction s xs rule: run_calls.induct) auto
  note this [of "[Log Error f a, Log Debug f' a']" for f a f' a', simplified]
    this [of "[Log Debug f' a']" for f' a', simplified]
  then have "run_calls s (handlePackets_select env l (FromPackets pkt)) =
          feed_Send s pkt (iface l) (handle_LinkType hnd)"
    by (simp add: capture_case [OF assms] split: option.splits)
  then show ?thesis
    by (simp add: handlePackets_iter_def Let_def feed_Send_map)
qed

subsection \<open>The registered names\<close>

lemma names_RegisterSender:
  "fst ` set (RegisterSender s ch name) = insert name (fst ` set s)"
proof (induction s)
  case Nil
  then show ?case by simp
next
  case (Cons a s)
  obtain n c where a: "a = (n, c)" by (cases a)
  show ?case
  proof (cases "n = name")
    case True
    then show ?thesis by (simp add: a)
  next
    case False
    then have "fst ` set (RegisterSender (a # s) ch name) =
                 insert n (fst ` set (RegisterSender s ch name))"
      by (simp add: a)
    also have "\<dots> = insert n (insert name (fst ` set s))"
      by (simp only: Cons.IH)
    finally show ?thesis
      by (simp add: a insert_commute)
  qed
qed

lemma names_startup_from:
  "fst ` set (foldl (\<lambda>s l. handlePackets_start l s) s ls) = fst ` set s \<union> iface ` set ls"
proof (induction ls arbitrary: s)
  case Nil
  then show ?case by simp
next
  case (Cons l ls)
  have "fst ` set (handlePackets_start l s) = insert (iface l) (fst ` set s)"
    by (simp add: handlePackets_start_def names_RegisterSender)
  with Cons.IH [of "handlePackets_start l s"] show ?case
    by auto
qed

lemma names_startup: "fst ` set (startup_feed ls) = iface ` set ls"
  by (simp add: startup_feed_def names_startup_from)

lemma names_feed_Send: "map fst (feed_Send s p src lt) = map fst s"
  by (induction s) auto

lemma names_feed_pop: "map fst (feed_pop s name) = map fst s"
  by (induction s) auto

lemma names_run_calls: "map fst (run_calls s es) = map fst s"
  by (induction s es rule: run_calls.induct) (auto simp: names_feed_Send)

lemma names_iter: "map fst (snd (handlePackets_iter env l s r)) = map fst s"
proof (cases r)
  case ReadySendpkt
  then show ?thesis
    by (simp add: handlePackets_iter_def names_feed_pop split: option.splits list.splits)
next
  case (ReadyPackets pkt)
  then show ?thesis
    by (simp add: handlePackets_iter_def Let_def names_run_calls)
next
  case ReadyTicker
  then show ?thesis
    by (simp add: handlePackets_iter_def)
qed

lemma names_relay_run: "map fst (relay_run env s evs) = map fst s"
proof (induction evs arbitrary: s)
  case Nil
  then show ?case by simp
next
  case (Cons ev evs)
  obtain l r where ev: "ev = (l, r)" by (cases ev)
  obtain es s' where it: "handlePackets_iter env l s r = (es, s')"
    by (cases "handlePackets_iter env l s r")
  from names_iter [of env l s r] it have "map fst s' = map fst s"
    by simp
  with Cons.IH [of s'] show ?case
    by (simp add: ev it)
qed

subsection \<open>Echoes and bounds\<close>

lemma no_echo_RegisterSender:
  "no_echo s \<Longrightarrow> waiting ch = [] \<Longrightarrow> no_echo (RegisterSender s ch name)"
  by (induction s) (auto simp: no_echo_def)

lemma bounded_RegisterSender:
  "feed_bounded s \<Longrightarrow> waiting ch = [] \<Longrightarrow> feed_bounded (RegisterSender s ch name)"
  by (induction s) (auto simp: feed_bounded_def)

lemma startup_from_ok:
  "\<forall>l \<in> set ls. waiting (sendpkt l) = [] \<Longrightarrow> no_echo s \<and> feed_bounded s \<Longrightarrow>
   no_echo (foldl (\<lambda>s l. handlePackets_start l s) s ls)
   \<and> feed_bounded (foldl (\<lambda>s l. handlePackets_start l s) s ls)"
  by (induction ls arbitrary: s)
    (auto simp: handlePackets_start_def no_echo_RegisterSender bounded_RegisterSender)

lemma startup_ok:
  "\<forall>l \<in> set ls. waiting (sendpkt l) = [] \<Longrightarrow>
   no_echo (startup_feed ls) \<and> feed_bounded (startup_feed ls)"
  unfolding startup_feed_def by (rule startup_from_ok) (simp_all add: no_echo_def feed_bounded_def)

lemma offer_full: "length (waiting ch) = capacity ch \<Longrightarrow> offer ch m = ch"
  unfolding offer_def by simp

lemma offer_bounded:
  "length (waiting ch) \<le> capacity ch \<Longrightarrow> length (waiting (offer ch m)) \<le> capacity (offer ch m)"
  by (simp add: offer_def)

lemma offer_no_echo:
  "list_all (\<lambda>m. srcif m \<noteq> n) (waiting ch) \<Longrightarrow> srcif m \<noteq> n \<Longrightarrow>
   list_all (\<lambda>m. srcif m \<noteq> n) (waiting (offer ch m))"
  by (simp add: offer_def)

lemma no_echo_feed_Send: "no_echo s \<Longrightarrow> no_echo (feed_Send s p src lt)"
  by (induction s) (auto simp: no_echo_def offer_no_echo)

lemma bounded_feed_Send: "feed_bounded s \<Longrightarrow> feed_bounded (feed_Send s p src lt)"
  by (induction s) (auto simp: feed_bounded_def offer_bounded)

lemma no_echo_feed_pop: "no_echo s \<Longrightarrow> no_echo (feed_pop s name)"
proof (induction s)
  case Nil
  then show ?case by simp
next
  case (Cons a s)
  obtain n ch where a: "a = (n, ch)" by (cases a)
  have "list_all P q \<Longrightarrow> list_all P (tl q)" for P :: "Send \<Rightarrow> bool" and q
    by (cases q) auto
  with Cons show ?case by (auto simp: no_echo_def a)
qed

lemma bounded_feed_pop: "feed_bounded s \<Longrightarrow> feed_bounded (feed_pop s name)"
proof (induction s)
  case Nil
  then show ?case by simp
next
  case (Cons a s)
  obtain n ch where a: "a = (n, ch)" by (cases a)
  have "length (tl (waiting ch)) \<le> length (waiting ch)"
    by simp
  with Cons show ?case
    by (auto simp: feed_bounded_def a)
qed

lemma run_calls_ok:
  "no_echo s \<and> feed_bounded s \<Longrightarrow> no_echo (run_calls s es) \<and> feed_bounded (run_calls s es)"
  by (induction s es rule: run_calls.induct) (auto simp: no_echo_feed_Send bounded_feed_Send)

lemma iter_ok:
  "no_echo s \<and> feed_bounded s \<Longrightarrow>
   no_echo (snd (handlePackets_iter env l s r))
   \<and> feed_bounded (snd (handlePackets_iter env l s r))"
  using run_calls_ok [of s]
  by (auto simp: handlePackets_iter_def Let_def no_echo_feed_pop bounded_feed_pop
      split: Ready.splits option.splits list.splits)

lemma relay_run_ok:
  "no_echo s \<and> feed_bounded s \<Longrightarrow>
   no_echo (relay_run env s evs) \<and> feed_bounded (relay_run env s evs)"
proof (induction evs arbitrary: s)
  case Nil
  then show ?case by simp
next
  case (Cons ev evs)
  obtain l r where ev: "ev = (l, r)" by (cases ev)
  obtain es s' where it: "handlePackets_iter env l s r = (es, s')"
    by (cases "handlePackets_iter env l s r")
  from iter_ok [OF Cons.prems, of env l r] it have ok: "no_echo s' \<and> feed_bounded s'"
    by simp
  with Cons.IH [of s'] show ?case
    by (simp add: ev it)
qed

text \<open>A message a listener takes from its own channel was captured on another
  interface.\<close>

lemma no_echo_map_of:
  "no_echo s \<Longrightarrow> map_of s name = Some ch \<Longrightarrow> m \<in> set (waiting ch) \<Longrightarrow> srcif m \<noteq> name"
  by (induction s) (auto simp: no_echo_def list_all_iff split: if_splits)

lemma received_not_own:
  assumes "no_echo s" and "map_of s (iface l) = Some ch" and "waiting ch = m # q"
  shows "handlePackets_iter env l s ReadySendpkt =
           (sendPacket env l m, feed_pop s (iface l)) \<and> srcif m \<noteq> iface l"
  using assms no_echo_map_of [OF assms(1,2), of m]
  by (simp add: handlePackets_iter_def handlePackets_select_def)

subsection \<open>Relaying a captured packet\<close>

lemma registered_after_run:
  "fst ` set (relay_run env (startup_feed ls) evs) = iface ` set ls"
proof -
  have "fst ` set (relay_run env (startup_feed ls) evs) =
          set (map fst (relay_run env (startup_feed ls) evs))"
    by simp
  also have "\<dots> = set (map fst (startup_feed ls))"
    by (simp only: names_relay_run)
  also have "\<dots> = iface ` set ls"
    by (simp add: names_startup)
  finally show ?thesis .
qed

lemma offered_to_others:
  assumes "fst ` set s = iface ` set ls"
    and "s' = map (\<lambda>(n, ch). (n, if n = src then ch else offer ch msg)) s"
    and "l' \<in> set ls" and "iface l' \<noteq> src"
  shows "\<exists>ch. (iface l', ch) \<in> set s
           \<and> (iface l', if length (waiting ch) < capacity ch
                         then ch\<lparr>waiting := waiting ch @ [msg]\<rparr> else ch) \<in> set s'"
proof -
  from assms(1,3) have "iface l' \<in> fst ` set s"
    by blast
  then obtain ch where ch: "(iface l', ch) \<in> set s"
    by auto
  then have "(\<lambda>(n, ch). (n, if n = src then ch else offer ch msg)) (iface l', ch) \<in> set s'"
    unfolding assms(2) set_map by (rule imageI)
  then have "(iface l', offer ch msg) \<in> set s'"
    using assms(4) by simp
  with ch show ?thesis
    by (auto simp: offer_def)
qed

lemma source_untouched:
  assumes "s' = map (\<lambda>(n, ch). (n, if n = src then ch else offer ch msg)) s"
    and "(src, ch') \<in> set s'"
  shows "(src, ch') \<in> set s"
  using assms by auto

text \<open>
  C1. Let the listeners \<open>ls\<close> be configured with the channels \<^verbatim>\<open>processListener\<close> makes,
  let every one of them have registered with the feed (line 86), and let the relay have
  run through any schedule of iterations since. The registered names are then exactly
  the configured interfaces. When the listener of interface A, with an open handle,
  captures a packet that has a network layer and a UDP transport layer, the iteration
  offers the message (the packet, A as its source, the link type of A's handle) to the
  channel of every configured interface other than A, where it is enqueued if the
  channel has room; the channel registered under A is left as it was, so the message is
  never enqueued on A. After the iteration no message waits in the channel of the
  interface it was captured on, and no channel holds more than its capacity.
\<close>

theorem relay_to_all_but_source:
  assumes "\<forall>l' \<in> set ls. sendpkt l' = make_chan SendBufferSize"
    and "s = relay_run env (startup_feed ls) evs"
    and "l \<in> set ls"
    and "NetworkLayer pkt \<noteq> None" and "TransportLayer pkt = Some LayerTypeUDP"
    and "handle l = Some hnd"
    and "msg = \<lparr>packet = pkt, srcif = iface l, linkType = handle_LinkType hnd\<rparr>"
    and "s' = snd (handlePackets_iter env l s (ReadyPackets pkt))"
  shows "fst ` set s = iface ` set ls
       \<and> s' = map (\<lambda>(n, ch). (n, if n = iface l then ch else offer ch msg)) s
       \<and> (\<forall>l' \<in> set ls. iface l' \<noteq> iface l \<longrightarrow>
             (\<exists>ch. (iface l', ch) \<in> set s
                \<and> (iface l', if length (waiting ch) < capacity ch
                              then ch\<lparr>waiting := waiting ch @ [msg]\<rparr> else ch) \<in> set s'))
       \<and> (\<forall>ch'. (iface l, ch') \<in> set s' \<longrightarrow> (iface l, ch') \<in> set s)
       \<and> no_echo s' \<and> feed_bounded s'"
proof -
  have names: "fst ` set s = iface ` set ls"
    unfolding assms(2) by (rule registered_after_run)
  have step: "s' = map (\<lambda>(n, ch). (n, if n = iface l then ch else offer ch msg)) s"
    unfolding assms(8) assms(7) by (simp add: capture_iter [OF assms(4-6)])
  have others: "\<forall>l' \<in> set ls. iface l' \<noteq> iface l \<longrightarrow>
             (\<exists>ch. (iface l', ch) \<in> set s
                \<and> (iface l', if length (waiting ch) < capacity ch
                              then ch\<lparr>waiting := waiting ch @ [msg]\<rparr> else ch) \<in> set s')"
    using offered_to_others [OF names step] by blast
  have own: "\<forall>ch'. (iface l, ch') \<in> set s' \<longrightarrow> (iface l, ch') \<in> set s"
    using source_untouched [OF step] by blast
  have "\<forall>l' \<in> set ls. waiting (sendpkt l') = []"
    using assms(1) by (simp add: make_chan_def)
  then have "no_echo (startup_feed ls) \<and> feed_bounded (startup_feed ls)"
    by (rule startup_ok)
  then have "no_echo s \<and> feed_bounded s"
    unfolding assms(2) by (rule relay_run_ok)
  then have ok: "no_echo s' \<and> feed_bounded s'"
    unfolding assms(8) by (rule iter_ok)
  from names step others own ok show ?thesis
    by blast
qed

lemma example_run:
  "relay_run (example_env example_decoded) (startup_feed [example_listen0, example_listen])
     [(example_listen, ReadyTicker)] =
   [(''eth0'', \<lparr>capacity = 100, waiting = []\<rparr>), (''eth1'', \<lparr>capacity = 100, waiting = []\<rparr>)]"
  by (simp add: startup_feed_def handlePackets_start_def example_listen0_def example_listen_def
      make_chan_def SendBufferSize_def handlePackets_iter_def handlePackets_select_def)

theorem relay_to_all_but_source_witness:
  "list_all (\<lambda>l'. sendpkt l' = make_chan SendBufferSize) [example_listen0, example_listen]
   \<and> example_listen0 \<in> set [example_listen0, example_listen]
   \<and> NetworkLayer example_packet \<noteq> None
   \<and> TransportLayer example_packet = Some LayerTypeUDP
   \<and> handle example_listen0 = Some \<lparr>handle_LinkType = LinkTypeEthernet\<rparr>
   \<and> example_send = \<lparr>packet = example_packet, srcif = iface example_listen0,
                      linkType = handle_LinkType \<lparr>handle_LinkType = LinkTypeEthernet\<rparr>\<rparr>
   \<and> snd (handlePackets_iter (example_env example_decoded) example_listen0
            (relay_run (example_env example_decoded)
               (startup_feed [example_listen0, example_listen])
               [(example_listen, ReadyTicker)])
            (ReadyPackets example_packet)) =
       [(''eth0'', \<lparr>capacity = 100, waiting = []\<rparr>),
        (''eth1'', \<lparr>capacity = 100, waiting = [example_send]\<rparr>)]"
proof -
  let ?ls = "[example_listen0, example_listen]"
  let ?env = "example_env example_decoded"
  let ?s = "relay_run ?env (startup_feed ?ls) [(example_listen, ReadyTicker)]"
  let ?s' = "snd (handlePackets_iter ?env example_listen0 ?s (ReadyPackets example_packet))"
  have a: "\<forall>l' \<in> set ?ls. sendpkt l' = make_chan SendBufferSize"
    by (simp add: example_listen0_def example_listen_def)
  have b: "example_listen0 \<in> set ?ls"
    by simp
  have c: "NetworkLayer example_packet \<noteq> None"
    and d: "TransportLayer example_packet = Some LayerTypeUDP"
    by (simp_all add: example_packet_def)
  have e: "handle example_listen0 = Some \<lparr>handle_LinkType = LinkTypeEthernet\<rparr>"
    by (simp add: example_listen0_def example_listen_def)
  have f: "example_send = \<lparr>packet = example_packet, srcif = iface example_listen0,
                      linkType = handle_LinkType \<lparr>handle_LinkType = LinkTypeEthernet\<rparr>\<rparr>"
    by (simp add: example_send_def example_listen0_def)
  note th = relay_to_all_but_source [OF a refl b c d e f refl, of ?env "[(example_listen, ReadyTicker)]"]
  from th have g0: "?s' = map (\<lambda>(n, ch). (n, if n = iface example_listen0 then ch
                                          else offer ch example_send)) ?s"
    by blast
  have n0: "iface example_listen0 = ''eth0''"
    by (simp add: example_listen0_def)
  have g: "?s' = [(''eth0'', \<lparr>capacity = 100, waiting = []\<rparr>),
                      (''eth1'', \<lparr>capacity = 100, waiting = [example_send]\<rparr>)]"
    by (subst g0, subst example_run) (simp add: offer_def n0)
  from a b c d e f g show ?thesis
    by (simp only: list_all_iff) blast
qed

subsection \<open>A captured packet with an error layer\<close>

text \<open>
  C9. A captured packet with a network layer and a UDP transport layer whose decoding also
  left an error layer is not dropped by the capture loop. The iteration logs the error,
  then calls \<^verbatim>\<open>s.Send\<close> with the packet, the listener's own interface name and the link
  type of its handle, and nothing else; on the feed every configured listener has
  registered with, the message is thereby offered to the channel of every configured
  interface other than the listener's own (and enqueued where the channel has room),
  exactly as for a packet without an error layer. What the receiving listener does with
  the message is decided by its own \<^verbatim>\<open>sendPacket\<close>, which decodes the frame again.
\<close>

theorem error_layer_still_forwarded:
  assumes "s = relay_run env (startup_feed ls) evs"
    and "l \<in> set ls"
    and "NetworkLayer pkt = Some n"
    and "TransportLayer pkt = Some LayerTypeUDP"
    and "ErrorLayer pkt = Some errx"
    and "handle l = Some hnd"
    and "msg = \<lparr>packet = pkt, srcif = iface l, linkType = handle_LinkType hnd\<rparr>"
  shows "handlePackets_iter env l s (ReadyPackets pkt) =
           ([Log Error ''%s: Unable to decode: %s'' [S (iface l), S errx],
             Log Debug ''%s: received packet and fowarding onto other interfaces'' [S (iface l)],
             CallSend pkt (iface l) (handle_LinkType hnd)],
            map (\<lambda>(n, ch). (n, if n = iface l then ch else offer ch msg)) s)
       \<and> (\<forall>l' \<in> set ls. iface l' \<noteq> iface l \<longrightarrow>
             (\<exists>ch. (iface l', ch) \<in> set s
                \<and> (iface l', if length (waiting ch) < capacity ch
                              then ch\<lparr>waiting := waiting ch @ [msg]\<rparr> else ch)
                    \<in> set (snd (handlePackets_iter env l s (ReadyPackets pkt)))))"
proof -
  have net: "NetworkLayer pkt \<noteq> None"
    using assms(3) by simp
  have names: "fst ` set s = iface ` set ls"
    unfolding assms(1) by (rule registered_after_run)
  have trace: "handlePackets_select env l (FromPackets pkt) =
           [Log Error ''%s: Unable to decode: %s'' [S (iface l), S errx],
            Log Debug ''%s: received packet and fowarding onto other interfaces'' [S (iface l)],
            CallSend pkt (iface l) (handle_LinkType hnd)]"
    using assms(5) by (simp add: capture_case [OF net assms(4) assms(6)])
  have iter: "handlePackets_iter env l s (ReadyPackets pkt) =
           ([Log Error ''%s: Unable to decode: %s'' [S (iface l), S errx],
             Log Debug ''%s: received packet and fowarding onto other interfaces'' [S (iface l)],
             CallSend pkt (iface l) (handle_LinkType hnd)],
            map (\<lambda>(n, ch). (n, if n = iface l then ch else offer ch msg)) s)"
    unfolding assms(7) by (simp add: capture_iter [OF net assms(4) assms(6)] trace)
  then have step: "snd (handlePackets_iter env l s (ReadyPackets pkt)) =
            map (\<lambda>(n, ch). (n, if n = iface l then ch else offer ch msg)) s"
    by simp
  have "\<forall>l' \<in> set ls. iface l' \<noteq> iface l \<longrightarrow>
             (\<exists>ch. (iface l', ch) \<in> set s
                \<and> (iface l', if length (waiting ch) < capacity ch
                              then ch\<lparr>waiting := waiting ch @ [msg]\<rparr> else ch)
                    \<in> set (snd (handlePackets_iter env l s (ReadyPackets pkt))))"
    using offered_to_others [OF names step] by blast
  with iter show ?thesis
    by (rule conjI)
qed

theorem error_layer_still_forwarded_witness:
  "example_listen0 \<in> set [example_listen0, example_listen]
   \<and> NetworkLayer (example_packet\<lparr>ErrorLayer := Some ''truncated''\<rparr>) = Some LayerTypeIPv4
   \<and> TransportLayer (example_packet\<lparr>ErrorLayer := Some ''truncated''\<rparr>) = Some LayerTypeUDP
   \<and> ErrorLayer (example_packet\<lparr>ErrorLayer := Some ''truncated''\<rparr>) = Some ''truncated''
   \<and> handle example_listen0 = Some \<lparr>handle_LinkType = LinkTypeEthernet\<rparr>
   \<and> handlePackets_iter (example_env example_decoded) example_listen0
       (relay_run (example_env example_decoded)
          (startup_feed [example_listen0, example_listen]) [(example_listen, ReadyTicker)])
       (ReadyPackets (example_packet\<lparr>ErrorLayer := Some ''truncated''\<rparr>)) =
       ([Log Error ''%s: Unable to decode: %s'' [S ''eth0'', S ''truncated''],
         Log Debug ''%s: received packet and fowarding onto other interfaces'' [S ''eth0''],
         CallSend (example_packet\<lparr>ErrorLayer := Some ''truncated''\<rparr>) ''eth0'' LinkTypeEthernet],
        [(''eth0'', \<lparr>capacity = 100, waiting = []\<rparr>),
         (''eth1'', \<lparr>capacity = 100,
                    waiting = [\<lparr>packet = example_packet\<lparr>ErrorLayer := Some ''truncated''\<rparr>,
                                srcif = ''eth0'', linkType = LinkTypeEthernet\<rparr>]\<rparr>)])"
proof -
  let ?pkt = "example_packet\<lparr>ErrorLayer := Some ''truncated''\<rparr>"
  let ?env = "example_env example_decoded"
  let ?s = "relay_run ?env (startup_feed [example_listen0, example_listen])
              [(example_listen, ReadyTicker)]"
  have a: "example_listen0 \<in> set [example_listen0, example_listen]"
    by simp
  have b: "NetworkLayer ?pkt = Some LayerTypeIPv4"
    and c: "TransportLayer ?pkt = Some LayerTypeUDP"
    and d: "ErrorLayer ?pkt = Some ''truncated''"
    by (simp_all add: example_packet_def)
  have e: "handle example_listen0 = Some \<lparr>handle_LinkType = LinkTypeEthernet\<rparr>"
    by (simp add: example_listen0_def example_listen_def)
  have n0: "iface example_listen0 = ''eth0''"
    by (simp add: example_listen0_def)
  note th = error_layer_still_forwarded [OF refl a b c d e refl,
      of ?env "[(example_listen, ReadyTicker)]"]
  from th have g0: "handlePackets_iter ?env example_listen0 ?s (ReadyPackets ?pkt) =
       ([Log Error ''%s: Unable to decode: %s'' [S (iface example_listen0), S ''truncated''],
         Log Debug ''%s: received packet and fowarding onto other interfaces''
           [S (iface example_listen0)],
         CallSend ?pkt (iface example_listen0)
           (handle_LinkType \<lparr>handle_LinkType = LinkTypeEthernet\<rparr>)],
        map (\<lambda>(n, ch). (n, if n = iface example_listen0 then ch
             else offer ch \<lparr>packet = ?pkt, srcif = iface example_listen0,
                            linkType = handle_LinkType \<lparr>handle_LinkType = LinkTypeEthernet\<rparr>\<rparr>)) ?s)"
    by (rule conjunct1)
  have g: "handlePackets_iter ?env example_listen0 ?s (ReadyPackets ?pkt) =
       ([Log Error ''%s: Unable to decode: %s'' [S ''eth0'', S ''truncated''],
         Log Debug ''%s: received packet and fowarding onto other interfaces'' [S ''eth0''],
         CallSend ?pkt ''eth0'' LinkTypeEthernet],
        [(''eth0'', \<lparr>capacity = 100, waiting = []\<rparr>),
         (''eth1'', \<lparr>capacity = 100,
                    waiting = [\<lparr>packet = ?pkt, srcif = ''eth0'',
                                linkType = LinkTypeEthernet\<rparr>]\<rparr>)])"
    by (subst g0, subst example_run) (simp add: offer_def n0)
  from a b c d e g show ?thesis
    by blast
qed

text \<open>On the receiving side, a frame the listener's own parser cannot decode is dropped with
  a warning: the capture loop forwards by the layers gopacket found, \<^verbatim>\<open>sendPacket\<close> sends
  by what its \<^verbatim>\<open>DecodingLayerParser\<close> makes of the frame.\<close>

lemma undecodable_dropped_on_receipt:
  assumes "parser_first_layer (linkType m) = Some first"
    and "dec_err (DecodeLayers env first (Data (packet m))) = Some e"
  shows "sendPacket env l m =
           [Log Debug ''processing packet from %s on %s'' [S (srcif m), S (iface l)],
            Log Warn ''Unable to decode packet from %s: %s'' [S (srcif m), S e]]"
  using assms by (simp add: sendPacket_def Let_def)

end
